theory Spec2Isabelle
  imports Complex_Main
begin

section \<open>Data model of \<open>get_SNP_list.py\<close>\<close>

text \<open>
  Every cohort table (\<open>.info.gz\<close>) is read with \<open>dtype='str'\<close>: a cell is a string, or
  missing (pandas NaN in an object column).  A missing cell is \<open>None\<close>.
\<close>

type_synonym str = "string option"

text \<open>
  The identity of a variant: the four columns the outer merge joins on,
  \<open>['SNP', 'REF(0)', 'ALT(1)', 'Genotyped']\<close>.
\<close>

record ident =
  SNP :: str
  REF0 :: str
  ALT1 :: str
  Genotyped :: str

text \<open>One row of a cohort table, restricted to the columns of \<open>cols_to_keep\<close>.\<close>

record info_row =
  ident :: ident
  ALT_Frq :: str
  MAF :: str
  Rsq :: str

text \<open>
  The four columns a cohort contributes to the merged frame:
  \<open>index_groupX\<close>, \<open>ALT_Frq_groupX\<close>, \<open>MAF_groupX\<close>, \<open>Rsq_groupX\<close>.
  The index column holds row positions (\<open>reset_index()\<close>), or NaN after an outer merge:
  in the merged frame \<open>'i\<close> is \<open>nat option\<close>.  \<open>'c\<close> is the type of a statistic cell,
  \<open>str\<close> as read and \<open>float64\<close> after \<open>pd.to_numeric\<close>.
\<close>

datatype ('i, 'c) cells = Cells (index_group: 'i) (ALT_Frq_group: 'c) (MAF_group: 'c) (Rsq_group: 'c)

text \<open>A row of the merged frame: the join key and the cells of group 1, 2, ...\<close>

record ('i, 'c) mrow =
  key :: ident
  groups :: "('i, 'c) cells list"

type_synonym str_cells = "(nat option, str) cells"

type_synonym str_row = "(nat option, str) mrow"

datatype py_error = IndexError | KeyError | AttributeError

text \<open>
  What \<open>__merge_snps\<close> returns as \<open>df_merged\<close>: a frame, or the initial value \<open>''\<close> when
  the loop never runs.
\<close>

datatype merged = DataFrame "str_row list" | PyStr string

section \<open>The outer merge\<close>

text \<open>
  \<open>reset_index()[cols_to_keep]\<close>: the row position becomes the column \<open>index\<close>.
\<close>

definition reset_index :: "info_row list \<Rightarrow> (ident \<times> str_cells) list" where
  "reset_index t =
     map (\<lambda>(i, r). (ident r, Cells (Some i) (ALT_Frq r) (MAF r) (Rsq r))) (enumerate 0 t)"

definition na_cells :: "str_cells" where
  "na_cells = Cells None None None None"

text \<open>
  \<open>DataFrame.merge(how='outer', on=[...])\<close> of pandas 1.x (the version whose
  \<open>fillna(method='ffill')\<close> the program calls): the keys of both frames are numbered in
  order of first appearance, left frame first; the result lists the groups in that
  order; a key on one side only gives that side's rows with the other side's columns
  missing; a key on both sides gives every pair of a left and a right row, left-major.
  Missing key fields compare equal to each other.
\<close>

definition first_seen :: "'a list \<Rightarrow> 'a list" where
  "first_seen xs = rev (remdups (rev xs))"

definition join_group ::
  "nat \<Rightarrow> str_row list \<Rightarrow> (ident \<times> str_cells) list \<Rightarrow> str_row list" where
  "join_group w ls rs =
     (if rs = [] then map (\<lambda>l. l\<lparr>groups := groups l @ [na_cells]\<rparr>) ls
      else if ls = [] then map (\<lambda>r. \<lparr>key = fst r, groups = replicate w na_cells @ [snd r]\<rparr>) rs
      else concat (map (\<lambda>l. map (\<lambda>r. l\<lparr>groups := groups l @ [snd r]\<rparr>) rs) ls))"

text \<open>\<open>w\<close> is the number of groups the left frame already has.\<close>

definition outer_merge ::
  "nat \<Rightarrow> str_row list \<Rightarrow> (ident \<times> str_cells) list \<Rightarrow> str_row list" where
  "outer_merge w left right =
     concat (map (\<lambda>k. join_group w (filter (\<lambda>l. key l = k) left) (filter (\<lambda>r. fst r = k) right))
                 (first_seen (map key left @ map fst right)))"

text \<open>The first frame before any merge: one group.\<close>

definition as_frame :: "(ident \<times> str_cells) list \<Rightarrow> str_row list" where
  "as_frame t = map (\<lambda>r. \<lparr>key = fst r, groups = [snd r]\<rparr>) t"

text \<open>
  \<open>__merge_snps\<close>.  The iteration \<open>i = 0\<close> merges the first and the second table
  (\<open>lst_info_df[i+1]\<close> raises IndexError when there is one table only) and continues at
  \<open>i = 2\<close>; every later iteration merges one more table into \<open>df_merged\<close>.
  \<open>merge_rest i\<close> is the loop from \<open>i \<ge> 2\<close> on.  The second component is
  \<open>lst_index_cols\<close>, the index columns by group number (from 0).
\<close>

fun merge_rest :: "nat \<Rightarrow> str_row list \<Rightarrow> info_row list list \<Rightarrow> str_row list" where
  "merge_rest i df [] = df"
| "merge_rest i df (t # ts) = merge_rest (i + 1) (outer_merge i df (reset_index t)) ts"

definition merge_snps :: "info_row list list \<Rightarrow> py_error + (merged \<times> nat list)" where
  "merge_snps lst_info_df =
     (case lst_info_df of
        [] \<Rightarrow> Inr (PyStr [], [])
      | [t1] \<Rightarrow> Inl IndexError
      | t1 # t2 # ts \<Rightarrow>
          Inr (DataFrame (merge_rest 2 (outer_merge 1 (as_frame (reset_index t1)) (reset_index t2)) ts),
               [0..<length lst_info_df]))"

section \<open>Numeric cells\<close>

text \<open>
  A float64 cell after \<open>pd.to_numeric(..., errors='coerce')\<close>: NaN, a finite number or an
  infinity (\<open>Inf True\<close> is \<open>+inf\<close>).  Finite numbers are exact reals: rounding and the
  sign of zero are outside this model.
\<close>

datatype float64 = NaN | Fin real | is_Inf: Inf bool

definition notna :: "float64 \<Rightarrow> bool" where
  "notna v = (v \<noteq> NaN)"

definition isna :: "float64 \<Rightarrow> bool" where
  "isna v = (v = NaN)"

fun fmul :: "float64 \<Rightarrow> float64 \<Rightarrow> float64" where
  "fmul NaN v = NaN"
| "fmul v NaN = NaN"
| "fmul (Fin a) (Fin b) = Fin (a * b)"
| "fmul (Fin a) (Inf t) = (if a = 0 then NaN else Inf (t = (0 < a)))"
| "fmul (Inf s) (Fin b) = (if b = 0 then NaN else Inf (s = (0 < b)))"
| "fmul (Inf s) (Inf t) = Inf (s = t)"

fun fdiv :: "float64 \<Rightarrow> float64 \<Rightarrow> float64" where
  "fdiv NaN v = NaN"
| "fdiv v NaN = NaN"
| "fdiv (Fin a) (Fin b) = (if b \<noteq> 0 then Fin (a / b) else if a = 0 then NaN else Inf (0 < a))"
| "fdiv (Fin a) (Inf t) = Fin 0"
| "fdiv (Inf s) (Fin b) = Inf (s = (0 \<le> b))"
| "fdiv (Inf s) (Inf t) = NaN"

fun fadd :: "float64 \<Rightarrow> float64 \<Rightarrow> float64" where
  "fadd NaN v = NaN"
| "fadd v NaN = NaN"
| "fadd (Fin a) (Fin b) = Fin (a + b)"
| "fadd (Fin a) (Inf t) = Inf t"
| "fadd (Inf s) (Fin b) = Inf s"
| "fadd (Inf s) (Inf t) = (if s = t then Inf s else NaN)"

text \<open>\<open>series >= thr\<close> and \<open>series < thr\<close> for a Python float \<open>thr\<close>: False on NaN.\<close>

fun fge :: "float64 \<Rightarrow> real \<Rightarrow> bool" where
  "fge NaN thr = False"
| "fge (Fin a) thr = (thr \<le> a)"
| "fge (Inf s) thr = s"

fun flt :: "float64 \<Rightarrow> real \<Rightarrow> bool" where
  "flt NaN thr = False"
| "flt (Fin a) thr = (a < thr)"
| "flt (Inf s) thr = (\<not> s)"

text \<open>\<open>DataFrame.sum(axis=1)\<close> and \<open>DataFrame.mean(axis=1)\<close> of one row: NaN is skipped.\<close>

definition nansum :: "float64 list \<Rightarrow> float64" where
  "nansum vs = foldr fadd (filter notna vs) (Fin 0)"

definition nanmean :: "float64 list \<Rightarrow> float64" where
  "nanmean vs = fdiv (nansum vs) (Fin (real (length (filter notna vs))))"

text \<open>
  \<open>pd.to_numeric(errors='coerce')\<close> on one cell.  How pandas reads a string as a number
  is not part of this program: \<open>parse\<close> is a parameter.  A missing cell stays missing.
\<close>

definition to_numeric :: "(string \<Rightarrow> float64) \<Rightarrow> str \<Rightarrow> float64" where
  "to_numeric parse c = (case c of None \<Rightarrow> NaN | Some s \<Rightarrow> parse s)"

type_synonym num_row = "(nat option, float64) mrow"

section \<open>Configuration and inputs\<close>

text \<open>
  An entry of \<open>dict_flags['--input']\<close> names a \<open>.dose.vcf.gz\<close> file and, by its suffix, a
  \<open>.info.gz\<close> table.  The model holds what the program reads under that name: the table,
  and the number of sample columns after \<open>FORMAT\<close> in the header line of the genotype file.
\<close>

record cohort_file =
  info :: "info_row list"
  individuals :: nat

record flags =
  input :: "cohort_file list"
  missing :: int
  r2_threshold :: real
  r2_output :: string

definition get_lst_info_df :: "flags \<Rightarrow> info_row list list" where
  "get_lst_info_df dict_flags = map info (input dict_flags)"

section \<open>Weighted statistics\<close>

text \<open>
  \<open>__calculate_weighted_r2_maf_altFrq\<close>, one row at a time (every operation of the source is
  element-wise or along \<open>axis=1\<close>).  \<open>adj_col col ns r\<close> is the row's part of the columns
  \<open>col_groupX_adj = df[col_groupX] * n_X\<close>; \<open>weight_adj_col\<close> that of
  \<open>Rsq_groupX_weight_adj = n_X * df[Rsq_groupX] / df[Rsq_groupX]\<close>.
\<close>

definition adj_col :: "((nat option, float64) cells \<Rightarrow> float64) \<Rightarrow> nat list \<Rightarrow> num_row \<Rightarrow> float64 list" where
  "adj_col col ns r = map (\<lambda>i. fmul (col (groups r ! i)) (Fin (real (ns ! i)))) [0..<length ns]"

definition weight_adj_col :: "nat list \<Rightarrow> num_row \<Rightarrow> float64 list" where
  "weight_adj_col ns r =
     map (\<lambda>i. fdiv (fmul (Fin (real (ns ! i))) (Rsq_group (groups r ! i))) (Rsq_group (groups r ! i)))
         [0..<length ns]"

definition weighted_freq :: "((nat option, float64) cells \<Rightarrow> float64) \<Rightarrow> nat list \<Rightarrow> num_row \<Rightarrow> float64" where
  "weighted_freq col ns r = fdiv (nansum (adj_col col ns r)) (Fin (real (sum_list ns)))"

definition weighted_r2 :: "nat list \<Rightarrow> num_row \<Rightarrow> float64" where
  "weighted_r2 ns r = fdiv (nansum (adj_col Rsq_group ns r)) (nansum (weight_adj_col ns r))"

text \<open>
  The result: per row the new columns \<open>Rsq_combined\<close>, \<open>MAF_combined\<close>,
  \<open>ALT_Frq_combined\<close>, and \<open>lst_number_of_individuals\<close>.
\<close>

definition calculate_weighted_r2_maf_altFrq ::
  "num_row list \<Rightarrow> cohort_file list \<Rightarrow> (float64 \<times> float64 option \<times> float64 option) list \<times> nat list" where
  "calculate_weighted_r2_maf_altFrq df_merged lst_input_fn =
     (let lst_number_of_individuals = map individuals lst_input_fn
      in (map (\<lambda>r. (weighted_r2 lst_number_of_individuals r,
                     Some (weighted_freq MAF_group lst_number_of_individuals r),
                     Some (weighted_freq ALT_Frq_group lst_number_of_individuals r))) df_merged,
          lst_number_of_individuals))"

section \<open>Sort key, classification and output\<close>

text \<open>
  \<open>df_merged[lst_index_cols].fillna(method='ffill').sum(axis=1)\<close>.  The forward fill runs
  down each column in the row order of the merged frame; \<open>prev\<close> holds the last valid value
  of each column.  A column with no valid value yet stays NaN, which the sum skips.
\<close>

fun ffill :: "'a option list \<Rightarrow> 'a option list list \<Rightarrow> 'a option list list" where
  "ffill prev [] = []"
| "ffill prev (r # rs) =
     (let cur = map (\<lambda>(p, v). case v of None \<Rightarrow> p | Some x \<Rightarrow> Some x) (zip prev r)
      in cur # ffill cur rs)"

definition sum_index_col :: "str_row list \<Rightarrow> nat list \<Rightarrow> nat list" where
  "sum_index_col df_merged lst_index_cols =
     map (\<lambda>r. sum_list (map (\<lambda>v. case v of None \<Rightarrow> 0 | Some x \<Rightarrow> x) r))
         (ffill (replicate (length lst_index_cols) None)
                (map (\<lambda>r. map (\<lambda>g. index_group (groups r ! g)) lst_index_cols) df_merged))"

text \<open>A row of \<open>df_merged\<close> at the end of \<open>__process_output\<close>.\<close>

record ('i, 'c) vrow = "('i, 'c) mrow" +
  sum_index_NA_ffilled :: nat
  Rsq_combined :: float64
  MAF_combined :: "float64 option"
  ALT_Frq_combined :: "float64 option"

text \<open>
  The loop over \<open>range(len(dict_flags['--input']))\<close> makes the columns \<open>Rsq_groupX\<close>,
  \<open>MAF_groupX\<close>, \<open>ALT_Frq_groupX\<close> numeric.
\<close>

definition to_numeric_row :: "(string \<Rightarrow> float64) \<Rightarrow> nat \<Rightarrow> str_row \<Rightarrow> num_row" where
  "to_numeric_row parse n r =
     \<lparr>key = key r, groups = map (\<lambda>i. map_cells id (to_numeric parse) (groups r ! i)) [0..<n]\<rparr>"

text \<open>
  With \<open>missing == 0\<close> the same loop builds \<open>mask_to_keep\<close> and \<open>mask_to_exclude\<close>; here for
  one row, from its values in \<open>Rsq_group1, Rsq_group2, ...\<close>.  \<open>mask_first\<close> is the iteration
  \<open>i == 0\<close>, \<open>mask_step\<close> a later one.  Both masks start as \<open>''\<close>: \<open>None\<close>.
\<close>

definition mask_first :: "real \<Rightarrow> float64 \<Rightarrow> bool \<times> bool" where
  "mask_first thr v =
     (let mask_to_keep = notna v; mask_to_exclude = isna v
      in if thr \<noteq> 0 then (mask_to_keep \<and> fge v thr, mask_to_exclude \<or> flt v thr)
         else (mask_to_keep, mask_to_exclude))"

definition mask_step :: "real \<Rightarrow> bool \<times> bool \<Rightarrow> float64 \<Rightarrow> bool \<times> bool" where
  "mask_step thr m v =
     (let mask_to_keep = fst m \<and> notna v; mask_to_exclude = snd m \<or> isna v
      in if thr \<noteq> 0 then (mask_to_keep \<and> fge v thr, mask_to_exclude \<or> flt v thr)
         else (mask_to_keep, mask_to_exclude))"

text \<open>\<open>df_merged[lst_col_names]\<close> for one row: its values in \<open>Rsq_group1, Rsq_group2, ...\<close>\<close>

definition rsq_values :: "num_row \<Rightarrow> float64 list" where
  "rsq_values r = map Rsq_group (groups r)"

definition row_masks :: "real \<Rightarrow> float64 list \<Rightarrow> (bool \<times> bool) option" where
  "row_masks thr vs = (case vs of [] \<Rightarrow> None | v # rest \<Rightarrow> Some (foldl (mask_step thr) (mask_first thr v) rest))"

text \<open>
  The combined columns: \<open>'first'\<close> copies \<open>Rsq_group1\<close>, \<open>'weighted_average'\<close> calls
  \<open>__calculate_weighted_r2_maf_altFrq\<close>, anything else is the mean of the Rsq columns.
\<close>

definition combined_cols ::
  "flags \<Rightarrow> num_row list \<Rightarrow> py_error + ((float64 \<times> float64 option \<times> float64 option) list \<times> nat list)" where
  "combined_cols dict_flags df =
     (if r2_output dict_flags = ''first'' then
        (if input dict_flags = [] then Inl KeyError
         else Inr (map (\<lambda>r. (Rsq_group (groups r ! 0), None, None)) df, []))
      else if r2_output dict_flags = ''weighted_average'' then
        Inr (calculate_weighted_r2_maf_altFrq df (input dict_flags))
      else Inr (map (\<lambda>r. (nanmean (rsq_values r), None, None)) df, []))"

text \<open>
  The frame with the new columns assigned, each row with its label: the row labelled
  \<open>i\<close> gets the \<open>i\<close>-th entry of every new column.
\<close>

definition assemble ::
  "num_row list \<Rightarrow> nat list \<Rightarrow> (float64 \<times> float64 option \<times> float64 option) list
     \<Rightarrow> (nat \<times> (nat option, float64) vrow) list" where
  "assemble df sum_ix comb =
     map (\<lambda>i. (i, \<lparr>key = key (df ! i), groups = groups (df ! i), sum_index_NA_ffilled = sum_ix ! i,
                      Rsq_combined = fst (comb ! i), MAF_combined = fst (snd (comb ! i)),
                      ALT_Frq_combined = snd (snd (comb ! i))\<rparr>))
         [0..<length df]"

text \<open>
  \<open>df_merged.sort_values(by='sum_index_NA_ffilled', ignore_index=True)\<close>: the rows in
  ascending order of the new column.  (The order among equal keys is of no consequence:
  the program never reads this frame.)
\<close>

definition sort_values :: "str_row list \<Rightarrow> nat list \<Rightarrow> (str_row \<times> nat) list" where
  "sort_values df_merged sum_ix = sort_key snd (zip df_merged sum_ix)"

text \<open>
  Frames keep their row labels (\<open>0, 1, ...\<close> after the merge).  \<open>select\<close> is indexing with
  a boolean mask, \<open>iloc\<close> indexing with a list of positions, \<open>drop_rows\<close> is
  \<open>drop(index=...)\<close>, \<open>drop_columns\<close> is \<open>drop(columns=lst_index_cols)\<close>: a dropped
  index column is \<open>None\<close>.
\<close>

definition select :: "'a list \<Rightarrow> bool list \<Rightarrow> 'a list" where
  "select df bmask = map fst (filter snd (zip df bmask))"

definition iloc :: "'a list \<Rightarrow> nat list \<Rightarrow> 'a list" where
  "iloc df inx = map (\<lambda>i. df ! i) inx"

definition drop_rows :: "(nat \<times> 'a) list \<Rightarrow> nat list \<Rightarrow> (nat \<times> 'a) list" where
  "drop_rows df inx = filter (\<lambda>lr. fst lr \<notin> set inx) df"

definition drop_columns ::
  "nat list \<Rightarrow> nat \<times> (nat option, float64) vrow \<Rightarrow> nat \<times> (nat option option, float64) vrow" where
  "drop_columns lst_index_cols lr =
     (fst lr,
      \<lparr>key = key (snd lr),
       groups = map (\<lambda>(g, c). map_cells (\<lambda>v. if g \<in> set lst_index_cols then None else Some v) id c)
                    (enumerate 0 (groups (snd lr))),
       sum_index_NA_ffilled = sum_index_NA_ffilled (snd lr),
       Rsq_combined = Rsq_combined (snd lr),
       MAF_combined = MAF_combined (snd lr),
       ALT_Frq_combined = ALT_Frq_combined (snd lr)\<rparr>)"

definition index_view ::
  "nat list \<Rightarrow> nat \<times> (nat option, float64) vrow \<Rightarrow> nat \<times> str \<times> nat option list" where
  "index_view lst_index_cols lr =
     (fst lr, SNP (key (snd lr)), map (\<lambda>g. index_group (groups (snd lr) ! g)) lst_index_cols)"

text \<open>
  What \<open>__process_output\<close> writes and returns: the frames written to
  \<open>variants_kept_<output>.txt\<close> and \<open>variants_excluded_<output>.txt\<close>, and the two
  returned values.
\<close>

record outputs =
  variants_kept :: "(nat \<times> (nat option option, float64) vrow) list"
  variants_excluded :: "(nat \<times> (nat option option, float64) vrow) list"
  lst_number_of_individuals :: "nat list"
  df_index_variant_kept :: "(nat \<times> str \<times> nat option list) list"

text \<open>
  \<open>__process_output\<close>.  Line 172 of the source assigns the sorted frame to the attribute
  \<open>df_merged.sort_values\<close> (here \<open>sort_values_attr\<close>), which nothing reads; \<open>df_merged\<close>
  itself keeps the row order of the merge, and it is the frame that is filtered and
  written.
  With no input at all the masks are still \<open>''\<close> (KeyError).
  In the branch \<open>missing \<noteq> 0\<close>, \<open>dropna(thresh=t)\<close> keeps the labels of the rows with at
  least \<open>t\<close> non-NaN Rsq values.
\<close>

definition process_output ::
  "(string \<Rightarrow> float64) \<Rightarrow> str_row list \<Rightarrow> flags \<Rightarrow> nat list \<Rightarrow> py_error + outputs" where
  "process_output parse df_merged dict_flags lst_index_cols =
     (let n = length (input dict_flags);
          sum_ix = sum_index_col df_merged lst_index_cols;
          sort_values_attr = sort_values df_merged sum_ix;
          df_num = map (to_numeric_row parse n) df_merged;
          masks = map (\<lambda>r. row_masks (r2_threshold dict_flags) (rsq_values r)) df_num
      in case combined_cols dict_flags df_num of
           Inl e \<Rightarrow> Inl e
         | Inr (comb, lst_number) \<Rightarrow>
            (let df = assemble df_num sum_ix comb
             in if missing dict_flags = 0 then
                  (if n = 0 then Inl KeyError
                   else
                     (let mask_to_keep = map (\<lambda>m. fst (the m)) masks;
                          mask_to_exclude = map (\<lambda>m. snd (the m)) masks
                      in Inr \<lparr>variants_kept = map (drop_columns lst_index_cols) (select df mask_to_keep),
                              variants_excluded = map (drop_columns lst_index_cols) (select df mask_to_exclude),
                              lst_number_of_individuals = lst_number,
                              df_index_variant_kept = map (index_view lst_index_cols) (select df mask_to_keep)\<rparr>))
                else
                  (let thresh = int n - missing dict_flags;
                       inx_to_keep =
                         map fst (filter (\<lambda>lr. thresh \<le> int (length (filter notna (rsq_values (snd lr)))))
                                         (enumerate 0 df_num))
                   in Inr \<lparr>variants_kept = map (drop_columns lst_index_cols) (iloc df inx_to_keep),
                           variants_excluded = map (drop_columns lst_index_cols) (drop_rows df inx_to_keep),
                           lst_number_of_individuals = lst_number,
                           df_index_variant_kept = map (index_view lst_index_cols) (iloc df inx_to_keep)\<rparr>)))"

text \<open>
  \<open>get_snp_list\<close>.  With no input \<open>df_merged\<close> is still the string \<open>''\<close>, and
  \<open>df_merged.shape\<close> raises AttributeError.
\<close>

definition get_snp_list :: "(string \<Rightarrow> float64) \<Rightarrow> flags \<Rightarrow> py_error + outputs" where
  "get_snp_list parse dict_flags =
     (case merge_snps (get_lst_info_df dict_flags) of
        Inl e \<Rightarrow> Inl e
      | Inr (PyStr s, lst_index_cols) \<Rightarrow> Inl AttributeError
      | Inr (DataFrame df_merged, lst_index_cols) \<Rightarrow> process_output parse df_merged dict_flags lst_index_cols)"

section \<open>Vocabulary of the statements\<close>

text \<open>
  The theorems speak of the cells of the merged frame as \<open>__merge_snps\<close> returns it:
  \<open>cell_value parse c\<close> is the number in the text cell \<open>c\<close>, NaN when the cell is missing
  or its text is no number.  \<open>rsq_cell\<close>, \<open>maf_cell\<close> and \<open>alt_frq_cell\<close> are the values of
  the row labelled \<open>i\<close> in the columns of group \<open>g\<close> (from 0).
\<close>

abbreviation cell_value :: "(string \<Rightarrow> float64) \<Rightarrow> str \<Rightarrow> float64" where
  "cell_value parse c \<equiv> (case c of None \<Rightarrow> NaN | Some s \<Rightarrow> parse s)"

abbreviation rsq_cell :: "(string \<Rightarrow> float64) \<Rightarrow> str_row list \<Rightarrow> nat \<Rightarrow> nat \<Rightarrow> float64" where
  "rsq_cell parse df_merged i g \<equiv> cell_value parse (Rsq_group (groups (df_merged ! i) ! g))"

abbreviation maf_cell :: "(string \<Rightarrow> float64) \<Rightarrow> str_row list \<Rightarrow> nat \<Rightarrow> nat \<Rightarrow> float64" where
  "maf_cell parse df_merged i g \<equiv> cell_value parse (MAF_group (groups (df_merged ! i) ! g))"

abbreviation alt_frq_cell :: "(string \<Rightarrow> float64) \<Rightarrow> str_row list \<Rightarrow> nat \<Rightarrow> nat \<Rightarrow> float64" where
  "alt_frq_cell parse df_merged i g \<equiv> cell_value parse (ALT_Frq_group (groups (df_merged ! i) ! g))"

section \<open>Example inputs\<close>

text \<open>Three variants, and cohort rows for them with a given Rsq text.\<close>

definition variant :: "string \<Rightarrow> ident" where
  "variant name = \<lparr>SNP = Some name, REF0 = Some ''T'', ALT1 = Some ''C'', Genotyped = Some ''Imputed''\<rparr>"

definition row_of :: "string \<Rightarrow> string \<Rightarrow> info_row" where
  "row_of name rsq = \<lparr>ident = variant name, ALT_Frq = Some ''0.5'', MAF = Some ''0.5'', Rsq = Some rsq\<rparr>"

text \<open>A stand-in for the number parser, enough for the texts used in the examples.\<close>

definition parse_example :: "string \<Rightarrow> float64" where
  "parse_example s =
     (if s = ''0'' then Fin 0 else if s = ''0.5'' then Fin (1 / 2) else if s = ''0.8'' then Fin (4 / 5)
      else if s = ''0.9'' then Fin (9 / 10) else if s = ''-0.5'' then Fin (- 1 / 2) else NaN)"

text \<open>
  Two cohorts of 100 and 50 individuals: the first table lists the variants A, C, the
  second B, A, C.  \<open>example_merged\<close> is the frame \<open>__merge_snps\<close> builds from them.
\<close>

definition example_flags :: "int \<Rightarrow> real \<Rightarrow> string \<Rightarrow> flags" where
  "example_flags m thr mode =
     \<lparr>input = [\<lparr>info = [row_of ''A'' ''0.9'', row_of ''C'' ''0.5''], individuals = 100\<rparr>,
               \<lparr>info = [row_of ''B'' ''0.8'', row_of ''A'' ''0.8'', row_of ''C'' ''0.5''], individuals = 50\<rparr>],
      missing = m, r2_threshold = thr, r2_output = mode\<rparr>"

definition example_merged :: "str_row list" where
  "example_merged =
     [\<lparr>key = variant ''A'', groups = [Cells (Some 0) (Some ''0.5'') (Some ''0.5'') (Some ''0.9''),
                                      Cells (Some 1) (Some ''0.5'') (Some ''0.5'') (Some ''0.8'')]\<rparr>,
      \<lparr>key = variant ''C'', groups = [Cells (Some 1) (Some ''0.5'') (Some ''0.5'') (Some ''0.5''),
                                      Cells (Some 2) (Some ''0.5'') (Some ''0.5'') (Some ''0.5'')]\<rparr>,
      \<lparr>key = variant ''B'', groups = [na_cells,
                                      Cells (Some 0) (Some ''0.5'') (Some ''0.5'') (Some ''0.8'')]\<rparr>]"

text \<open>\<open>example_merged\<close> after \<open>pd.to_numeric\<close>.\<close>

definition example_num :: "num_row list" where
  "example_num =
     [\<lparr>key = variant ''A'', groups = [Cells (Some 0) (Fin (1 / 2)) (Fin (1 / 2)) (Fin (9 / 10)),
                                      Cells (Some 1) (Fin (1 / 2)) (Fin (1 / 2)) (Fin (4 / 5))]\<rparr>,
      \<lparr>key = variant ''C'', groups = [Cells (Some 1) (Fin (1 / 2)) (Fin (1 / 2)) (Fin (1 / 2)),
                                      Cells (Some 2) (Fin (1 / 2)) (Fin (1 / 2)) (Fin (1 / 2))]\<rparr>,
      \<lparr>key = variant ''B'', groups = [Cells None NaN NaN NaN,
                                      Cells (Some 0) (Fin (1 / 2)) (Fin (1 / 2)) (Fin (4 / 5))]\<rparr>]"

text \<open>A merged frame of two cohorts with one variant whose Rsq field is missing in both.\<close>

definition absent_merged :: "str_row list" where
  "absent_merged =
     [\<lparr>key = variant ''D'', groups = [Cells (Some 0) (Some ''0.5'') (Some ''0.5'') None,
                                      Cells (Some 0) (Some ''0.5'') (Some ''0.5'') None]\<rparr>]"

text \<open>
  Two cohorts of 100 and 50 individuals with one shared variant, whose Rsq is \<open>0\<close> in the
  first cohort and \<open>0.8\<close> in the second.
\<close>

definition zero_r2_flags :: flags where
  "zero_r2_flags =
     \<lparr>input = [\<lparr>info = [row_of ''A'' ''0''], individuals = 100\<rparr>,
               \<lparr>info = [row_of ''A'' ''0.8''], individuals = 50\<rparr>],
      missing = 0, r2_threshold = 0, r2_output = ''weighted_average''\<rparr>"

definition zero_r2_merged :: "str_row list" where
  "zero_r2_merged =
     [\<lparr>key = variant ''A'', groups = [Cells (Some 0) (Some ''0.5'') (Some ''0.5'') (Some ''0''),
                                      Cells (Some 0) (Some ''0.5'') (Some ''0.5'') (Some ''0.8'')]\<rparr>]"


text \<open>
  Three cohorts with the tables A, B, C; A, B; and A, and \<open>missing = 1\<close>.
  \<open>three_merged\<close> is the frame \<open>__merge_snps\<close> builds from them.
\<close>

definition three_flags :: flags where
  "three_flags =
     \<lparr>input = [\<lparr>info = [row_of ''A'' ''0.9'', row_of ''B'' ''0.9'', row_of ''C'' ''0.9''], individuals = 100\<rparr>,
               \<lparr>info = [row_of ''A'' ''0.8'', row_of ''B'' ''0.8''], individuals = 50\<rparr>,
               \<lparr>info = [row_of ''A'' ''0.5''], individuals = 10\<rparr>],
      missing = 1, r2_threshold = 0, r2_output = ''mean''\<rparr>"

definition three_merged :: "str_row list" where
  "three_merged =
     [\<lparr>key = variant ''A'', groups = [Cells (Some 0) (Some ''0.5'') (Some ''0.5'') (Some ''0.9''),
                                      Cells (Some 0) (Some ''0.5'') (Some ''0.5'') (Some ''0.8''),
                                      Cells (Some 0) (Some ''0.5'') (Some ''0.5'') (Some ''0.5'')]\<rparr>,
      \<lparr>key = variant ''B'', groups = [Cells (Some 1) (Some ''0.5'') (Some ''0.5'') (Some ''0.9''),
                                      Cells (Some 1) (Some ''0.5'') (Some ''0.5'') (Some ''0.8''),
                                      na_cells]\<rparr>,
      \<lparr>key = variant ''C'', groups = [Cells (Some 2) (Some ''0.5'') (Some ''0.5'') (Some ''0.9''),
                                      na_cells,
                                      na_cells]\<rparr>]"

text \<open>Two cohorts, the first with the variant A on two rows.\<close>

definition duplicate_flags :: flags where
  "duplicate_flags =
     \<lparr>input = [\<lparr>info = [row_of ''A'' ''0.9'', row_of ''A'' ''0.5''], individuals = 100\<rparr>,
               \<lparr>info = [row_of ''A'' ''0.8''], individuals = 50\<rparr>],
      missing = 0, r2_threshold = 0, r2_output = ''first''\<rparr>"

text \<open>
  The number of rows a key has after an outer merge, from its numbers of rows on the
  left and on the right.
\<close>

definition mult_count :: "nat \<Rightarrow> nat \<Rightarrow> nat" where
  "mult_count lc rc = (if rc = 0 then lc else if lc = 0 then rc else lc * rc)"

section \<open>The merge: keys of the result\<close>

lemma length_join_group: "length (join_group w ls rs) = mult_count (length ls) (length rs)"
proof -
  have "length (concat (map (\<lambda>l. map (\<lambda>r. l\<lparr>groups := groups l @ [snd r]\<rparr>) rs) ls)) = length ls * length rs"
    by (induction ls) simp_all
  then show ?thesis
    by (simp add: join_group_def mult_count_def)
qed

lemma key_join_group:
  assumes "\<forall>l\<in>set ls. key l = k" "\<forall>r\<in>set rs. fst r = k" "x \<in> set (join_group w ls rs)"
  shows "key x = k"
  using assms by (auto simp: join_group_def split: if_splits)

lemma keys_join_group:
  assumes "\<forall>l\<in>set ls. key l = k" "\<forall>r\<in>set rs. fst r = k"
  shows "map key (join_group w ls rs) = replicate (mult_count (length ls) (length rs)) k"
proof -
  have "\<forall>y\<in>set (map key (join_group w ls rs)). y = k"
    using key_join_group[OF assms] by auto
  then have "replicate (length (map key (join_group w ls rs))) k = map key (join_group w ls rs)"
    by (rule replicate_length_same)
  then show ?thesis by (simp add: length_join_group)
qed

lemma set_first_seen: "set (first_seen xs) = set xs"
  by (simp add: first_seen_def)

lemma distinct_first_seen: "distinct (first_seen xs)"
  by (simp add: first_seen_def)

lemma count_replicate: "count_list (replicate n k) x = (if x = k then n else 0)"
  by (induction n) auto

lemma count_concat_replicate:
  "distinct ks \<Longrightarrow> count_list (concat (map (\<lambda>k. replicate (c k) k) ks)) x = (if x \<in> set ks then c x else 0)"
  by (induction ks) (auto simp: count_list_0_iff count_replicate)

lemma length_filter_count: "length (filter (\<lambda>l. f l = k) xs) = count_list (map f xs) k"
  by (induction xs) auto

lemma keys_outer_merge:
  "map key (outer_merge w left right) =
     concat (map (\<lambda>k. replicate (mult_count (count_list (map key left) k) (count_list (map fst right) k)) k)
       (first_seen (map key left @ map fst right)))"
proof -
  have "map key (join_group w (filter (\<lambda>l. key l = k) left) (filter (\<lambda>r. fst r = k) right))
      = replicate (mult_count (count_list (map key left) k) (count_list (map fst right) k)) k" for k
    using keys_join_group[of "filter (\<lambda>l. key l = k) left" k "filter (\<lambda>r. fst r = k) right" w]
    by (simp add: length_filter_count)
  then show ?thesis
    unfolding outer_merge_def map_concat map_map comp_def by simp
qed

lemma count_outer_merge:
  "count_list (map key (outer_merge w left right)) x =
     mult_count (count_list (map key left) x) (count_list (map fst right) x)"
proof -
  have "x \<notin> set (map key left) \<Longrightarrow> x \<notin> set (map fst right) \<Longrightarrow> ?thesis"
    unfolding keys_outer_merge
    by (simp only: count_concat_replicate[OF distinct_first_seen] set_first_seen) (simp add: mult_count_def)
  moreover have "x \<in> set (map key left) \<or> x \<in> set (map fst right) \<Longrightarrow> ?thesis"
    unfolding keys_outer_merge
    by (simp only: count_concat_replicate[OF distinct_first_seen] set_first_seen) auto
  ultimately show ?thesis by blast
qed


lemma set_keys_outer_merge:
  "set (map key (outer_merge w left right)) = set (map key left) \<union> set (map fst right)"
proof -
  have "x \<in> set (map key (outer_merge w left right)) \<longleftrightarrow> x \<in> set (map key left) \<union> set (map fst right)" for x
  proof -
    have "x \<in> set (map key (outer_merge w left right)) \<longleftrightarrow> count_list (map key (outer_merge w left right)) x \<noteq> 0"
      by (simp only: count_list_0_iff) simp
    also have "\<dots> \<longleftrightarrow> count_list (map key left) x \<noteq> 0 \<or> count_list (map fst right) x \<noteq> 0"
      by (simp only: count_outer_merge) (auto simp: mult_count_def)
    also have "\<dots> \<longleftrightarrow> x \<in> set (map key left) \<union> set (map fst right)"
      by (simp only: count_list_0_iff) simp
    finally show ?thesis .
  qed
  then show ?thesis by blast
qed

lemma distinct_iff_count_le: "distinct xs \<longleftrightarrow> (\<forall>x. count_list xs x \<le> 1)"
proof (induction xs)
  case Nil
  then show ?case by simp
next
  case (Cons a xs)
  have in_iff: "a \<in> set xs \<longleftrightarrow> count_list xs a \<noteq> 0"
    by (simp only: count_list_0_iff) simp
  show ?case
  proof
    assume d: "distinct (a # xs)"
    then have "count_list xs a = 0" "\<forall>x. count_list xs x \<le> 1"
      using Cons.IH in_iff by auto
    then show "\<forall>x. count_list (a # xs) x \<le> 1" by simp
  next
    assume c: "\<forall>x. count_list (a # xs) x \<le> 1"
    have "count_list (a # xs) a \<le> 1" using c by blast
    then have "count_list xs a = 0" by simp
    moreover have "count_list xs x \<le> 1" for x
    proof -
      have "count_list xs x \<le> count_list (a # xs) x" by simp
      also have "\<dots> \<le> 1" using c by blast
      finally show ?thesis .
    qed
    ultimately show "distinct (a # xs)" using Cons.IH in_iff by simp
  qed
qed

lemma mult_count_le_1: "mult_count a b \<le> 1 \<longleftrightarrow> a \<le> 1 \<and> b \<le> 1"
proof (cases "a = 0 \<or> b = 0")
  case True
  then show ?thesis by (auto simp: mult_count_def)
next
  case False
  then have "1 \<le> a" "1 \<le> b" by auto
  then have "a * b \<le> 1 \<longleftrightarrow> a \<le> 1 \<and> b \<le> 1"
    by (metis One_nat_def Suc_le_eq le_antisym mult.right_neutral mult_le_mono nat_mult_1 nat_mult_le_cancel_disj order_refl zero_less_one_class.zero_le_one mult_is_0 le_zero_eq mult_eq_1_iff le_Suc_eq)
  with False show ?thesis by (simp add: mult_count_def)
qed

lemma distinct_outer_merge:
  "distinct (map key (outer_merge w left right)) \<longleftrightarrow> distinct (map key left) \<and> distinct (map fst right)"
  unfolding distinct_iff_count_le count_outer_merge mult_count_le_1 by blast

lemma keys_reset_index: "map fst (reset_index t) = map ident t"
proof -
  have "map fst (reset_index t) = map (ident \<circ> snd) (enumerate 0 t)"
    by (simp add: reset_index_def case_prod_beta comp_def)
  also have "\<dots> = map ident (map snd (enumerate 0 t))" by (simp only: map_map)
  also have "\<dots> = map ident t" by (simp only: map_snd_enumerate)
  finally show ?thesis .
qed

lemma keys_as_frame: "map key (as_frame t) = map fst t"
  by (simp add: as_frame_def comp_def)

lemma set_keys_merge_rest:
  "set (map key (merge_rest i df ts)) = set (map key df) \<union> (\<Union>t\<in>set ts. ident ` set t)"
proof (induction ts arbitrary: i df)
  case Nil
  then show ?case by simp
next
  case (Cons t ts)
  have "set (map key (outer_merge i df (reset_index t))) = set (map key df) \<union> ident ` set t"
    by (simp only: set_keys_outer_merge keys_reset_index) simp
  then show ?case using Cons.IH[of "i + 1" "outer_merge i df (reset_index t)"] by auto
qed

lemma distinct_merge_rest:
  "distinct (map key (merge_rest i df ts)) \<longleftrightarrow> distinct (map key df) \<and> (\<forall>t\<in>set ts. distinct (map ident t))"
proof (induction ts arbitrary: i df)
  case Nil
  then show ?case by simp
next
  case (Cons t ts)
  show ?case
    using Cons.IH[of "i + 1" "outer_merge i df (reset_index t)"]
    by (auto simp only: merge_rest.simps distinct_outer_merge keys_reset_index list.set)
qed

lemma merge_snps_two:
  assumes "2 \<le> length lst"
  obtains t1 t2 ts where "lst = t1 # t2 # ts"
    "merge_snps lst = Inr (DataFrame (merge_rest 2 (outer_merge 1 (as_frame (reset_index t1)) (reset_index t2)) ts), [0..<length lst])"
proof -
  from assms obtain t1 t2 ts where l: "lst = t1 # t2 # ts"
    by (cases lst; cases "tl lst") auto
  then show ?thesis using that by (simp add: merge_snps_def)
qed

lemma set_keys_merged:
  "set (map key (merge_rest 2 (outer_merge 1 (as_frame (reset_index t1)) (reset_index t2)) ts))
     = (\<Union>t\<in>set (t1 # t2 # ts). ident ` set t)"
  by (simp only: set_keys_merge_rest set_keys_outer_merge keys_as_frame keys_reset_index) auto

lemma distinct_merged:
  "distinct (map key (merge_rest 2 (outer_merge 1 (as_frame (reset_index t1)) (reset_index t2)) ts))
     \<longleftrightarrow> (\<forall>t\<in>set (t1 # t2 # ts). distinct (map ident t))"
  by (simp only: distinct_merge_rest distinct_outer_merge keys_as_frame keys_reset_index) auto

text \<open>
  Claim C1, amended.  For every list of at least two cohort tables, each with unique
  identity keys, \<open>__merge_snps\<close> returns a frame with no identity on two rows, whose
  identities are the union of the identities of the tables and whose number of rows is
  the size of that union.
\<close>

theorem merge_snps_row_count:
  assumes "2 \<le> length lst_info_df" and "\<forall>t\<in>set lst_info_df. distinct (map ident t)"
  shows "\<exists>df cols. merge_snps lst_info_df = Inr (DataFrame df, cols)
           \<and> distinct (map key df)
           \<and> key ` set df = (\<Union>t\<in>set lst_info_df. ident ` set t)
           \<and> length df = card (\<Union>t\<in>set lst_info_df. ident ` set t)"
proof -
  from assms(1) obtain t1 t2 ts where l: "lst_info_df = t1 # t2 # ts"
    and m: "merge_snps lst_info_df =
      Inr (DataFrame (merge_rest 2 (outer_merge 1 (as_frame (reset_index t1)) (reset_index t2)) ts), [0..<length lst_info_df])"
    by (rule merge_snps_two)
  define df where "df = merge_rest 2 (outer_merge 1 (as_frame (reset_index t1)) (reset_index t2)) ts"
  have s: "set (map key df) = (\<Union>t\<in>set lst_info_df. ident ` set t)"
    unfolding df_def l by (rule set_keys_merged)
  have d: "distinct (map key df)"
    unfolding df_def using assms(2) l distinct_merged by blast
  have "length df = length (map key df)" by simp
  also have "\<dots> = card (set (map key df))" using d by (simp only: distinct_card)
  finally have "length df = card (\<Union>t\<in>set lst_info_df. ident ` set t)" using s by simp
  moreover have "key ` set df = (\<Union>t\<in>set lst_info_df. ident ` set t)" using s by simp
  ultimately show ?thesis using m d unfolding df_def by blast
qed

theorem merge_snps_row_count_witness:
  "\<exists>df cols. merge_snps [[row_of ''A'' ''0.9'', row_of ''C'' ''0.5''],
                           [row_of ''B'' ''0.8'', row_of ''A'' ''0.8'', row_of ''C'' ''0.5'']]
       = Inr (DataFrame df, cols) \<and> distinct (map key df) \<and> length df = 3"
proof -
  let ?l = "[[row_of ''A'' ''0.9'', row_of ''C'' ''0.5''],
             [row_of ''B'' ''0.8'', row_of ''A'' ''0.8'', row_of ''C'' ''0.5'']]"
  have v: "variant ''A'' \<noteq> variant ''B''" "variant ''A'' \<noteq> variant ''C''" "variant ''B'' \<noteq> variant ''C''"
    by (simp_all add: variant_def)
  have h1: "2 \<le> length ?l" by simp
  have h2: "\<forall>t\<in>set ?l. distinct (map ident t)"
    using v by (simp add: row_of_def)
  have u: "(\<Union>t\<in>set ?l. ident ` set t) = {variant ''A'', variant ''B'', variant ''C''}"
    by (auto simp: row_of_def)
  have c: "card {variant ''A'', variant ''B'', variant ''C''} = 3"
    using v by simp
  from merge_snps_row_count[OF h1 h2] obtain df cols where
    "merge_snps ?l = Inr (DataFrame df, cols)" "distinct (map key df)"
    "length df = card (\<Union>t\<in>set ?l. ident ` set t)"
    by blast
  then show ?thesis unfolding u c by blast
qed

text \<open>
  Claim C1 as stated includes a single cohort table.  There the first iteration of the
  loop reads \<open>lst_info_df[1]\<close> and raises IndexError: no table is produced.
\<close>

theorem merge_snps_single_table_counterexample:
  "merge_snps [[row_of ''A'' ''0.9'']] = Inl IndexError"
  by (simp add: merge_snps_def)

section \<open>The outputs of \<open>__process_output\<close>\<close>

lemma combined_cols_returns:
  assumes "input dict_flags \<noteq> []"
  shows "\<exists>comb ns. combined_cols dict_flags df = Inr (comb, ns) \<and> length comb = length df"
  using assms by (simp add: combined_cols_def calculate_weighted_r2_maf_altFrq_def Let_def)

lemma select_map: "select (map g xs) (map h xs) = map g (filter h xs)"
  by (induction xs) (simp_all add: select_def)

lemma length_rsq_values: "length (rsq_values (to_numeric_row parse n r)) = n"
  by (simp add: rsq_values_def to_numeric_row_def)

lemma cell_test_complement: "(notna v \<and> fge v thr) = (\<not> (isna v \<or> flt v thr))"
  by (cases v) (auto simp: notna_def isna_def)

lemma foldl_mask_step:
  "foldl (mask_step thr) (k, e) vs =
     (k \<and> (\<forall>v\<in>set vs. notna v \<and> (thr \<noteq> 0 \<longrightarrow> fge v thr)),
      e \<or> (\<exists>v\<in>set vs. isna v \<or> (thr \<noteq> 0 \<and> flt v thr)))"
  by (induction vs arbitrary: k e) (auto simp: mask_step_def Let_def)

lemma row_masks_Cons:
  "row_masks thr (v # vs) =
     Some ((\<forall>x\<in>set (v # vs). notna x \<and> (thr \<noteq> 0 \<longrightarrow> fge x thr)),
           (\<exists>x\<in>set (v # vs). isna x \<or> (thr \<noteq> 0 \<and> flt x thr)))"
  by (auto simp: row_masks_def mask_first_def Let_def foldl_mask_step)

lemma row_masks_nonempty:
  assumes "vs \<noteq> []"
  shows "row_masks thr vs =
     Some ((\<forall>x\<in>set vs. notna x \<and> (thr \<noteq> 0 \<longrightarrow> fge x thr)),
           (\<exists>x\<in>set vs. isna x \<or> (thr \<noteq> 0 \<and> flt x thr)))"
  using assms row_masks_Cons by (cases vs) simp_all


lemma enumerate_as_map: "enumerate 0 xs = map (\<lambda>i. (i, xs ! i)) [0..<length xs]"
  by (rule nth_equalityI) (simp_all add: nth_enumerate_eq)

lemma fst_drop_columns: "fst (drop_columns cols lr) = fst lr"
  by (simp add: drop_columns_def)

lemma key_drop_columns: "key (snd (drop_columns cols lr)) = key (snd lr)"
  by (simp add: drop_columns_def)

lemma key_to_numeric_row: "key (to_numeric_row parse n r) = key r"
  by (simp add: to_numeric_row_def)

lemma drop_rows_map:
  "drop_rows (map g xs) inx = map g (filter (\<lambda>x. fst (g x) \<notin> set inx) xs)"
  by (simp add: drop_rows_def filter_map comp_def)

text \<open>The rows written by the branch \<open>missing == 0\<close>.\<close>

lemma process_output_masks:
  assumes n: "input dict_flags \<noteq> []" and m: "missing dict_flags = 0"
  shows "\<exists>out g. process_output parse df_merged dict_flags cols = Inr out
      \<and> (\<forall>i. fst (g i) = i)
      \<and> (\<forall>i<length df_merged. key (snd (g i)) = key (df_merged ! i))
      \<and> variants_kept out = map g (filter (\<lambda>i. \<forall>x\<in>set (rsq_values (to_numeric_row parse (length (input dict_flags)) (df_merged ! i))).
              notna x \<and> (r2_threshold dict_flags \<noteq> 0 \<longrightarrow> fge x (r2_threshold dict_flags))) [0..<length df_merged])
      \<and> variants_excluded out = map g (filter (\<lambda>i. \<exists>x\<in>set (rsq_values (to_numeric_row parse (length (input dict_flags)) (df_merged ! i))).
              isna x \<or> (r2_threshold dict_flags \<noteq> 0 \<and> flt x (r2_threshold dict_flags))) [0..<length df_merged])"
proof -
  define N where "N = length (input dict_flags)"
  define thr where "thr = r2_threshold dict_flags"
  define df_num where "df_num = map (to_numeric_row parse N) df_merged"
  define sum_ix where "sum_ix = sum_index_col df_merged cols"
  have N0: "N \<noteq> 0" using n by (simp add: N_def)
  obtain comb ns where c: "combined_cols dict_flags df_num = Inr (comb, ns)"
    using combined_cols_returns[OF n] by blast
  define row where "row = (\<lambda>i. \<lparr>key = key (df_num ! i), groups = groups (df_num ! i), sum_index_NA_ffilled = sum_ix ! i,
                      Rsq_combined = fst (comb ! i), MAF_combined = fst (snd (comb ! i)),
                      ALT_Frq_combined = snd (snd (comb ! i))\<rparr>)"
  define g where "g = (\<lambda>i. drop_columns cols (i, row i))"
  define L where "L = length df_merged"
  have len: "length df_num = L" by (simp add: df_num_def L_def)
  have df: "assemble df_num sum_ix comb = map (\<lambda>i. (i, row i)) [0..<L]"
    by (simp add: assemble_def row_def len)
  define K where "K = (\<lambda>i. \<forall>x\<in>set (rsq_values (to_numeric_row parse N (df_merged ! i))). notna x \<and> (thr \<noteq> 0 \<longrightarrow> fge x thr))"
  define E where "E = (\<lambda>i. \<exists>x\<in>set (rsq_values (to_numeric_row parse N (df_merged ! i))). isna x \<or> (thr \<noteq> 0 \<and> flt x thr))"
  have rm: "row_masks thr (rsq_values (df_num ! i)) = Some (K i, E i)" if "i < L" for i
  proof -
    have "rsq_values (to_numeric_row parse N (df_merged ! i)) \<noteq> []"
      using N0 length_rsq_values[of parse N "df_merged ! i"] by auto
    then show ?thesis
      using that by (simp add: df_num_def L_def K_def E_def row_masks_nonempty)
  qed
  have masks: "map (\<lambda>r. row_masks thr (rsq_values r)) df_num = map (\<lambda>i. Some (K i, E i)) [0..<L]"
    by (rule nth_equalityI) (simp_all add: len rm)
  have out: "process_output parse df_merged dict_flags cols =
      Inr \<lparr>variants_kept = map (drop_columns cols) (select (map (\<lambda>i. (i, row i)) [0..<L]) (map K [0..<L])),
           variants_excluded = map (drop_columns cols) (select (map (\<lambda>i. (i, row i)) [0..<L]) (map E [0..<L])),
           lst_number_of_individuals = ns,
           df_index_variant_kept = map (index_view cols) (select (map (\<lambda>i. (i, row i)) [0..<L]) (map K [0..<L]))\<rparr>"
    unfolding process_output_def Let_def
    using c m N0 df masks
    by (simp add: N_def[symmetric] thr_def[symmetric] df_num_def[symmetric] sum_ix_def[symmetric] comp_def)
  have g1: "\<forall>i. fst (g i) = i" by (simp add: g_def fst_drop_columns)
  have g2: "\<forall>i<length df_merged. key (snd (g i)) = key (df_merged ! i)"
    by (simp add: g_def key_drop_columns row_def df_num_def key_to_numeric_row)
  show ?thesis
    apply (rule exI[of _ "\<lparr>variants_kept = map (drop_columns cols) (select (map (\<lambda>i. (i, row i)) [0..<L]) (map K [0..<L])),
           variants_excluded = map (drop_columns cols) (select (map (\<lambda>i. (i, row i)) [0..<L]) (map E [0..<L])),
           lst_number_of_individuals = ns,
           df_index_variant_kept = map (index_view cols) (select (map (\<lambda>i. (i, row i)) [0..<L]) (map K [0..<L]))\<rparr>"])
    apply (rule exI[of _ g])
    using out g1 g2
    by (simp add: select_map g_def K_def E_def N_def thr_def L_def comp_def)
qed


text \<open>The rows written by the branch \<open>missing \<noteq> 0\<close>.\<close>

lemma process_output_thresh:
  assumes n: "input dict_flags \<noteq> []" and m: "missing dict_flags \<noteq> 0"
  shows "\<exists>out g. process_output parse df_merged dict_flags cols = Inr out
      \<and> (\<forall>i. fst (g i) = i)
      \<and> (\<forall>i<length df_merged. key (snd (g i)) = key (df_merged ! i))
      \<and> variants_kept out = map g (filter (\<lambda>i. int (length (input dict_flags)) - missing dict_flags
              \<le> int (length (filter notna (rsq_values (to_numeric_row parse (length (input dict_flags)) (df_merged ! i))))))
            [0..<length df_merged])
      \<and> variants_excluded out = map g (filter (\<lambda>i. \<not> int (length (input dict_flags)) - missing dict_flags
              \<le> int (length (filter notna (rsq_values (to_numeric_row parse (length (input dict_flags)) (df_merged ! i))))))
            [0..<length df_merged])"
proof -
  define N where "N = length (input dict_flags)"
  define df_num where "df_num = map (to_numeric_row parse N) df_merged"
  define sum_ix where "sum_ix = sum_index_col df_merged cols"
  obtain comb ns where c: "combined_cols dict_flags df_num = Inr (comb, ns)"
    using combined_cols_returns[OF n] by blast
  define row where "row = (\<lambda>i. \<lparr>key = key (df_num ! i), groups = groups (df_num ! i), sum_index_NA_ffilled = sum_ix ! i,
                      Rsq_combined = fst (comb ! i), MAF_combined = fst (snd (comb ! i)),
                      ALT_Frq_combined = snd (snd (comb ! i))\<rparr>)"
  define g where "g = (\<lambda>i. drop_columns cols (i, row i))"
  define L where "L = length df_merged"
  have len: "length df_num = L" by (simp add: df_num_def L_def)
  have df: "assemble df_num sum_ix comb = map (\<lambda>i. (i, row i)) [0..<L]"
    by (simp add: assemble_def row_def len)
  define K where "K = (\<lambda>i. int N - missing dict_flags
      \<le> int (length (filter notna (rsq_values (to_numeric_row parse N (df_merged ! i))))))"
  have "filter (\<lambda>lr. int N - missing dict_flags \<le> int (length (filter notna (rsq_values (snd lr))))) (enumerate 0 df_num)
      = map (\<lambda>i. (i, df_num ! i)) (filter K [0..<L])"
    unfolding enumerate_as_map len filter_map comp_def
    by (rule arg_cong[where f = "map _"], rule filter_cong) (simp_all add: K_def df_num_def L_def)
  then have inx: "map fst (filter (\<lambda>lr. int N - missing dict_flags \<le> int (length (filter notna (rsq_values (snd lr))))) (enumerate 0 df_num))
      = filter K [0..<L]"
    by (simp add: comp_def)
  have out: "process_output parse df_merged dict_flags cols =
      Inr \<lparr>variants_kept = map (drop_columns cols) (iloc (map (\<lambda>i. (i, row i)) [0..<L]) (filter K [0..<L])),
           variants_excluded = map (drop_columns cols) (drop_rows (map (\<lambda>i. (i, row i)) [0..<L]) (filter K [0..<L])),
           lst_number_of_individuals = ns,
           df_index_variant_kept = map (index_view cols) (iloc (map (\<lambda>i. (i, row i)) [0..<L]) (filter K [0..<L]))\<rparr>"
    unfolding process_output_def Let_def
    using c m df inx
    by (simp add: N_def[symmetric] df_num_def[symmetric] sum_ix_def[symmetric])
  have il: "iloc (map (\<lambda>i. (i, row i)) [0..<L]) (filter K [0..<L]) = map (\<lambda>i. (i, row i)) (filter K [0..<L])"
    by (simp add: iloc_def)
  have dr: "drop_rows (map (\<lambda>i. (i, row i)) [0..<L]) (filter K [0..<L]) = map (\<lambda>i. (i, row i)) (filter (\<lambda>i. \<not> K i) [0..<L])"
    unfolding drop_rows_map
    by (rule arg_cong[where f = "map _"], rule filter_cong) simp_all
  have g1: "\<forall>i. fst (g i) = i" by (simp add: g_def fst_drop_columns)
  have g2: "\<forall>i<length df_merged. key (snd (g i)) = key (df_merged ! i)"
    by (simp add: g_def key_drop_columns row_def df_num_def key_to_numeric_row)
  have kept: "map (drop_columns cols) (iloc (map (\<lambda>i. (i, row i)) [0..<L]) (filter K [0..<L])) = map g (filter K [0..<L])"
    by (simp add: il g_def)
  have excl: "map (drop_columns cols) (drop_rows (map (\<lambda>i. (i, row i)) [0..<L]) (filter K [0..<L])) = map g (filter (\<lambda>i. \<not> K i) [0..<L])"
    by (simp add: dr g_def)
  have "\<exists>out. process_output parse df_merged dict_flags cols = Inr out
      \<and> variants_kept out = map g (filter K [0..<L]) \<and> variants_excluded out = map g (filter (\<lambda>i. \<not> K i) [0..<L])"
    unfolding out kept excl by simp
  then show ?thesis
    unfolding K_def N_def L_def using g1 g2 by blast
qed


lemma partition_labels:
  assumes g: "\<forall>i. fst (g i) = i"
    and k: "kept = map g (filter K [0..<L])"
    and e: "excl = map g (filter (\<lambda>i. \<not> K i) [0..<L])"
  shows "map fst kept = filter K [0..<L]" "map fst excl = filter (\<lambda>i. \<not> K i) [0..<L]"
proof -
  have "map fst (map g xs) = xs" for xs
    using g by (induction xs) simp_all
  then show "map fst kept = filter K [0..<L]" "map fst excl = filter (\<lambda>i. \<not> K i) [0..<L]"
    using k e by simp_all
qed

lemma masks_complement:
  "(\<exists>x\<in>set vs. isna x \<or> (thr \<noteq> 0 \<and> flt x thr)) = (\<not> (\<forall>x\<in>set vs. notna x \<and> (thr \<noteq> 0 \<longrightarrow> fge x thr)))"
  using cell_test_complement[of _ thr] by (auto simp: notna_def isna_def)

text \<open>Both branches: the labels of the kept rows and of the excluded rows.\<close>

lemma process_output_labels:
  assumes n: "input dict_flags \<noteq> []"
  shows "\<exists>out K. process_output parse df_merged dict_flags cols = Inr out
      \<and> map fst (variants_kept out) = filter K [0..<length df_merged]
      \<and> map fst (variants_excluded out) = filter (\<lambda>i. \<not> K i) [0..<length df_merged]
      \<and> (\<forall>lr\<in>set (variants_kept out) \<union> set (variants_excluded out). key (snd lr) = key (df_merged ! fst lr))"
proof -
  have *: "\<exists>K. map fst kept = filter K [0..<length df_merged]
      \<and> map fst excl = filter (\<lambda>i. \<not> K i) [0..<length df_merged]
      \<and> (\<forall>lr\<in>set kept \<union> set excl. key (snd lr) = key (df_merged ! fst lr))"
    if g1: "\<forall>i. fst (g i) = i" and g2: "\<forall>i<length df_merged. key (snd (g i)) = key (df_merged ! i)"
      and k: "kept = map g (filter K [0..<length df_merged])"
      and e: "excl = map g (filter (\<lambda>i. \<not> K i) [0..<length df_merged])"
    for g K and kept excl :: "(nat \<times> (nat option option, float64) vrow) list"
  proof -
    have "\<forall>lr\<in>set kept \<union> set excl. key (snd lr) = key (df_merged ! fst lr)"
      using g1 g2 k e by auto
    then show ?thesis using partition_labels[OF g1 k e] by blast
  qed
  show ?thesis
  proof (cases "missing dict_flags = 0")
    case True
    from process_output_masks[OF n True, of parse df_merged cols] obtain out g where
      o: "process_output parse df_merged dict_flags cols = Inr out"
      and g1: "\<forall>i. fst (g i) = i" and g2: "\<forall>i<length df_merged. key (snd (g i)) = key (df_merged ! i)"
      and k: "variants_kept out = map g (filter (\<lambda>i. \<forall>x\<in>set (rsq_values (to_numeric_row parse (length (input dict_flags)) (df_merged ! i))).
              notna x \<and> (r2_threshold dict_flags \<noteq> 0 \<longrightarrow> fge x (r2_threshold dict_flags))) [0..<length df_merged])"
      and e: "variants_excluded out = map g (filter (\<lambda>i. \<exists>x\<in>set (rsq_values (to_numeric_row parse (length (input dict_flags)) (df_merged ! i))).
              isna x \<or> (r2_threshold dict_flags \<noteq> 0 \<and> flt x (r2_threshold dict_flags))) [0..<length df_merged])"
      by blast
    show ?thesis using o *[OF g1 g2 k e[unfolded masks_complement]] by blast
  next
    case False
    from process_output_thresh[OF n False, of parse df_merged cols] obtain out g where
      o: "process_output parse df_merged dict_flags cols = Inr out"
      and g1: "\<forall>i. fst (g i) = i" and g2: "\<forall>i<length df_merged. key (snd (g i)) = key (df_merged ! i)"
      and k: "variants_kept out = map g (filter (\<lambda>i. int (length (input dict_flags)) - missing dict_flags
              \<le> int (length (filter notna (rsq_values (to_numeric_row parse (length (input dict_flags)) (df_merged ! i))))))
            [0..<length df_merged])"
      and e: "variants_excluded out = map g (filter (\<lambda>i. \<not> int (length (input dict_flags)) - missing dict_flags
              \<le> int (length (filter notna (rsq_values (to_numeric_row parse (length (input dict_flags)) (df_merged ! i))))))
            [0..<length df_merged])"
      by blast
    show ?thesis using o *[OF g1 g2 k e] by blast
  qed
qed

text \<open>
  Claim C3.  For every merged frame and every configuration of \<open>missing\<close> and
  \<open>r2_threshold\<close> (with at least one input), \<open>__process_output\<close> writes a kept and an
  excluded frame such that no row label is in both, every row label of the merged frame
  is in one of them, no label occurs twice, and each written row has the identity of the
  row of the merged frame with its label.
\<close>

theorem kept_excluded_partition:
  assumes "input dict_flags \<noteq> []"
  shows "\<exists>out. process_output parse df_merged dict_flags cols = Inr out
      \<and> fst ` set (variants_kept out) \<inter> fst ` set (variants_excluded out) = {}
      \<and> fst ` set (variants_kept out) \<union> fst ` set (variants_excluded out) = {0..<length df_merged}
      \<and> distinct (map fst (variants_kept out)) \<and> distinct (map fst (variants_excluded out))
      \<and> set (variants_kept out) \<inter> set (variants_excluded out) = {}
      \<and> (\<forall>lr\<in>set (variants_kept out) \<union> set (variants_excluded out). key (snd lr) = key (df_merged ! fst lr))"
proof -
  from process_output_labels[OF assms, of parse df_merged cols] obtain out K where
    o: "process_output parse df_merged dict_flags cols = Inr out"
    and k: "map fst (variants_kept out) = filter K [0..<length df_merged]"
    and e: "map fst (variants_excluded out) = filter (\<lambda>i. \<not> K i) [0..<length df_merged]"
    and r: "\<forall>lr\<in>set (variants_kept out) \<union> set (variants_excluded out). key (snd lr) = key (df_merged ! fst lr)"
    by blast
  have sk: "fst ` set (variants_kept out) = {i. i < length df_merged \<and> K i}"
    using arg_cong[OF k, of set] by auto
  have se: "fst ` set (variants_excluded out) = {i. i < length df_merged \<and> \<not> K i}"
    using arg_cong[OF e, of set] by auto
  have d1: "fst ` set (variants_kept out) \<inter> fst ` set (variants_excluded out) = {}"
    unfolding sk se by blast
  have d2: "fst ` set (variants_kept out) \<union> fst ` set (variants_excluded out) = {0..<length df_merged}"
    unfolding sk se by auto
  have d3: "distinct (map fst (variants_kept out))" "distinct (map fst (variants_excluded out))"
    unfolding k e by simp_all
  have d4: "set (variants_kept out) \<inter> set (variants_excluded out) = {}"
    using d1 by blast
  show ?thesis using o d1 d2 d3 d4 r by blast
qed

theorem kept_excluded_partition_witness:
  "\<exists>out. process_output parse_example example_merged (example_flags 0 (1 / 2) ''mean'') [0, 1] = Inr out
      \<and> fst ` set (variants_kept out) \<inter> fst ` set (variants_excluded out) = {}
      \<and> fst ` set (variants_kept out) \<union> fst ` set (variants_excluded out) = {0..<3}"
proof -
  have h: "input (example_flags 0 (1 / 2) ''mean'') \<noteq> []"
    by (simp add: example_flags_def)
  have l: "length example_merged = 3"
    by (simp add: example_merged_def)
  from kept_excluded_partition[OF h, of parse_example example_merged "[0, 1]"] show ?thesis
    unfolding l by blast
qed



section \<open>Duplicate identities\<close>

lemma count_keys_reset_index: "count_list (map fst (reset_index t)) k = count_list (map ident t) k"
  by (simp only: keys_reset_index)

lemma count_merge_rest:
  "count_list (map key (merge_rest i df ts)) k
     = foldl mult_count (count_list (map key df) k) (map (\<lambda>t. count_list (map ident t) k) ts)"
proof (induction ts arbitrary: i df)
  case Nil
  then show ?case by simp
next
  case (Cons t ts)
  show ?case
    by (simp only: merge_rest.simps Cons.IH count_outer_merge count_keys_reset_index list.map foldl_Cons)
qed

lemma count_merged:
  "count_list (map key (merge_rest 2 (outer_merge 1 (as_frame (reset_index t1)) (reset_index t2)) ts)) k
     = foldl mult_count 0 (map (\<lambda>t. count_list (map ident t) k) (t1 # t2 # ts))"
proof -
  have z: "mult_count 0 c = c" for c by (simp add: mult_count_def)
  show ?thesis
    by (simp only: count_merge_rest count_outer_merge count_keys_reset_index keys_as_frame list.map foldl_Cons z)
qed

lemma mult_count_ge2: "2 \<le> a \<or> 2 \<le> b \<Longrightarrow> 2 \<le> mult_count a b"
proof -
  assume h: "2 \<le> a \<or> 2 \<le> b"
  show ?thesis
  proof (cases "a = 0 \<or> b = 0")
    case True
    then show ?thesis using h by (auto simp: mult_count_def)
  next
    case False
    then have p: "1 \<le> a" "1 \<le> b" by auto
    have "2 \<le> a * b"
    proof (cases "2 \<le> a")
      case True
      have "a \<le> a * b" using p by simp
      then show ?thesis using True by linarith
    next
      case False
      then have "2 \<le> b" using h by simp
      moreover have "b \<le> a * b" using p by simp
      ultimately show ?thesis by linarith
    qed
    then show ?thesis using False by (simp add: mult_count_def)
  qed
qed

lemma foldl_mult_count_ge2:
  "2 \<le> c \<or> (\<exists>x\<in>set xs. 2 \<le> x) \<Longrightarrow> 2 \<le> foldl mult_count c xs"
proof (induction xs arbitrary: c)
  case Nil
  then show ?case by simp
next
  case (Cons x xs)
  from Cons.prems have "2 \<le> mult_count c x \<or> (\<exists>y\<in>set xs. 2 \<le> y)"
    using mult_count_ge2[of c x] by auto
  then show ?case using Cons.IH[of "mult_count c x"] by simp
qed

lemma foldl_mult_count_prod:
  "foldl mult_count c xs =
     (if c = 0 \<and> (\<forall>x\<in>set xs. x = 0) then 0 else prod_list (filter (\<lambda>x. 0 < x) (c # xs)))"
proof (induction xs arbitrary: c)
  case Nil
  then show ?case by simp
next
  case (Cons x xs)
  show ?case
    unfolding foldl_Cons Cons.IH[of "mult_count c x"]
    by (auto simp: mult_count_def)
qed

text \<open>
  Claim C8, amended.  When some cohort table (of at least two) has an identity on two or
  more rows, nothing rejects the input: \<open>__merge_snps\<close> returns a frame in which this
  identity is on as many rows as the product of its numbers of rows in the tables that
  have it, so on two or more rows, and \<open>get_snp_list\<close> returns its outputs.
\<close>

theorem duplicates_are_merged:
  assumes n: "2 \<le> length (input dict_flags)"
    and t: "t \<in> set (get_lst_info_df dict_flags)"
    and d: "2 \<le> count_list (map ident t) k"
  shows "\<exists>df cols out. merge_snps (get_lst_info_df dict_flags) = Inr (DataFrame df, cols)
      \<and> count_list (map key df) k
          = prod_list (filter (\<lambda>c. 0 < c) (map (\<lambda>t. count_list (map ident t) k) (get_lst_info_df dict_flags)))
      \<and> 2 \<le> count_list (map key df) k
      \<and> get_snp_list parse dict_flags = Inr out"
proof -
  have l: "2 \<le> length (get_lst_info_df dict_flags)"
    using n by (simp add: get_lst_info_df_def)
  from l obtain t1 t2 ts where e: "get_lst_info_df dict_flags = t1 # t2 # ts"
    and m: "merge_snps (get_lst_info_df dict_flags) =
      Inr (DataFrame (merge_rest 2 (outer_merge 1 (as_frame (reset_index t1)) (reset_index t2)) ts),
           [0..<length (get_lst_info_df dict_flags)])"
    by (rule merge_snps_two)
  define df where "df = merge_rest 2 (outer_merge 1 (as_frame (reset_index t1)) (reset_index t2)) ts"
  define cs where "cs = map (\<lambda>t. count_list (map ident t) k) (get_lst_info_df dict_flags)"
  have c: "count_list (map key df) k = foldl mult_count 0 cs"
    unfolding df_def cs_def e by (rule count_merged)
  have x: "\<exists>x\<in>set cs. 2 \<le> x"
    unfolding cs_def using t d by auto
  then have g: "2 \<le> count_list (map key df) k"
    unfolding c by (intro foldl_mult_count_ge2) simp
  from x obtain y where y: "y \<in> set cs" "2 \<le> y" by blast
  have nz: "\<not> (\<forall>x\<in>set cs. x = 0)"
  proof
    assume "\<forall>x\<in>set cs. x = 0"
    then have "y = 0" using y(1) by (rule bspec)
    then show False using y(2) by simp
  qed
  have "foldl mult_count 0 cs = prod_list (filter (\<lambda>c. 0 < c) (0 # cs))"
    using nz by (simp only: foldl_mult_count_prod if_False simp_thms)
  then have p: "count_list (map key df) k = prod_list (filter (\<lambda>c. 0 < c) cs)"
    unfolding c by simp
  have i: "input dict_flags \<noteq> []" using n by auto
  from process_output_labels[OF i, of parse df "[0..<length (get_lst_info_df dict_flags)]"]
  obtain out where "process_output parse df dict_flags [0..<length (get_lst_info_df dict_flags)] = Inr out"
    by blast
  then have "get_snp_list parse dict_flags = Inr out"
    by (simp add: get_snp_list_def m df_def)
  then show ?thesis using m p g unfolding df_def cs_def by blast
qed

theorem duplicates_are_merged_witness:
  "\<exists>df cols out. merge_snps (get_lst_info_df duplicate_flags) = Inr (DataFrame df, cols)
      \<and> count_list (map key df) (variant ''A'') = 2
      \<and> get_snp_list parse_example duplicate_flags = Inr out"
proof -
  have n: "2 \<le> length (input duplicate_flags)"
    by (simp add: duplicate_flags_def)
  have l: "get_lst_info_df duplicate_flags = [[row_of ''A'' ''0.9'', row_of ''A'' ''0.5''], [row_of ''A'' ''0.8'']]"
    by (simp add: get_lst_info_df_def duplicate_flags_def)
  have t: "[row_of ''A'' ''0.9'', row_of ''A'' ''0.5''] \<in> set (get_lst_info_df duplicate_flags)"
    by (simp add: l)
  have d: "2 \<le> count_list (map ident [row_of ''A'' ''0.9'', row_of ''A'' ''0.5'']) (variant ''A'')"
    by (simp add: row_of_def)
  have f: "prod_list (filter (\<lambda>c. 0 < c) (map (\<lambda>t. count_list (map ident t) (variant ''A'')) (get_lst_info_df duplicate_flags))) = 2"
    unfolding l by (simp add: row_of_def)
  from duplicates_are_merged[OF n t d, of parse_example] show ?thesis
    unfolding f by blast
qed

text \<open>
  Claim C8 as stated, at two tables of which the first has the variant A twice: the
  merge raises no error and returns a frame with both rows of A.
\<close>

theorem duplicate_identity_counterexample:
  "merge_snps (get_lst_info_df duplicate_flags) =
     Inr (DataFrame [\<lparr>key = variant ''A'', groups = [Cells (Some 0) (Some ''0.5'') (Some ''0.5'') (Some ''0.9''),
                                                    Cells (Some 0) (Some ''0.5'') (Some ''0.5'') (Some ''0.8'')]\<rparr>,
                     \<lparr>key = variant ''A'', groups = [Cells (Some 1) (Some ''0.5'') (Some ''0.5'') (Some ''0.5''),
                                                    Cells (Some 0) (Some ''0.5'') (Some ''0.5'') (Some ''0.8'')]\<rparr>],
          [0, 1])"
  by (simp add: merge_snps_def get_lst_info_df_def duplicate_flags_def outer_merge_def join_group_def
      first_seen_def as_frame_def reset_index_def row_of_def upt_rec)

section \<open>The classification\<close>

lemma example_merge:
  "merge_snps (get_lst_info_df (example_flags m thr mode)) = Inr (DataFrame example_merged, [0, 1])"
  by (simp add: merge_snps_def get_lst_info_df_def example_flags_def example_merged_def outer_merge_def
      join_group_def first_seen_def as_frame_def reset_index_def row_of_def variant_def upt_rec)

lemma rsq_values_raw:
  "rsq_values (to_numeric_row parse n r) = map (\<lambda>g. cell_value parse (Rsq_group (groups r ! g))) [0..<n]"
  by (simp add: rsq_values_def to_numeric_row_def to_numeric_def cells.map_sel)



lemma count_rsq_values:
  "length (filter notna (rsq_values (to_numeric_row parse n r)))
     = card {g. g < n \<and> cell_value parse (Rsq_group (groups r ! g)) \<noteq> NaN}"
proof -
  let ?P = "\<lambda>g. cell_value parse (Rsq_group (groups r ! g)) \<noteq> NaN"
  have "length (filter notna (rsq_values (to_numeric_row parse n r))) = length (filter ?P [0..<n])"
    unfolding rsq_values_raw filter_map by (simp add: comp_def notna_def)
  also have "\<dots> = card (set (filter ?P [0..<n]))"
    by (rule distinct_card[symmetric]) simp
  also have "set (filter ?P [0..<n]) = {g. g < n \<and> ?P g}" by auto
  finally show ?thesis .
qed

lemma less_two: "g < 2 \<longleftrightarrow> g = 0 \<or> g = Suc 0" for g :: nat
  by auto

lemma less_three: "g < 3 \<longleftrightarrow> g = 0 \<or> g = Suc 0 \<or> g = Suc (Suc 0)" for g :: nat
  by auto





lemma three_merge:
  "merge_snps (get_lst_info_df three_flags) = Inr (DataFrame three_merged, [0, 1, 2])"
  by (simp add: merge_snps_def get_lst_info_df_def three_flags_def three_merged_def outer_merge_def
      join_group_def first_seen_def as_frame_def reset_index_def row_of_def variant_def na_cells_def upt_rec)

text \<open>
  Claim C6.  With \<open>missing > 0\<close> the row with label \<open>i\<close> is written to the kept frame if
  and only if the number of cohorts in which its Rsq is present is at least the number
  of inputs minus \<open>missing\<close>, and to the excluded frame otherwise; the result is the same
  for every value of \<open>r2_threshold\<close>.
\<close>

theorem missing_allowed_classification:
  assumes n: "input dict_flags \<noteq> []" and m: "0 < missing dict_flags" and i: "i < length df_merged"
  shows "\<exists>out. process_output parse df_merged dict_flags cols = Inr out
      \<and> (i \<in> fst ` set (variants_kept out) \<longleftrightarrow>
           int (length (input dict_flags)) - missing dict_flags
             \<le> int (card {g. g < length (input dict_flags) \<and> rsq_cell parse df_merged i g \<noteq> NaN}))
      \<and> (i \<in> fst ` set (variants_excluded out) \<longleftrightarrow> i \<notin> fst ` set (variants_kept out))
      \<and> process_output parse df_merged (dict_flags\<lparr>r2_threshold := t\<rparr>) cols = Inr out"
proof -
  have m0: "missing dict_flags \<noteq> 0" using m by simp
  from process_output_thresh[OF n m0, of parse df_merged cols] obtain out g where
    o: "process_output parse df_merged dict_flags cols = Inr out"
    and g1: "\<forall>i. fst (g i) = i"
    and k: "variants_kept out = map g (filter (\<lambda>i. int (length (input dict_flags)) - missing dict_flags
              \<le> int (length (filter notna (rsq_values (to_numeric_row parse (length (input dict_flags)) (df_merged ! i))))))
            [0..<length df_merged])"
    and e: "variants_excluded out = map g (filter (\<lambda>i. \<not> int (length (input dict_flags)) - missing dict_flags
              \<le> int (length (filter notna (rsq_values (to_numeric_row parse (length (input dict_flags)) (df_merged ! i))))))
            [0..<length df_merged])"
    by blast
  have fg: "fst ` set (map g xs) = set xs" for xs
    using g1 by (induction xs) simp_all
  have ik: "i \<in> fst ` set (variants_kept out) \<longleftrightarrow>
           int (length (input dict_flags)) - missing dict_flags
             \<le> int (card {g. g < length (input dict_flags) \<and> rsq_cell parse df_merged i g \<noteq> NaN})"
    unfolding k fg count_rsq_values using i by simp
  have ie: "i \<in> fst ` set (variants_excluded out) \<longleftrightarrow> i \<notin> fst ` set (variants_kept out)"
    unfolding k e fg using i by simp
  have "combined_cols (dict_flags\<lparr>r2_threshold := t\<rparr>) df = combined_cols dict_flags df" for df
    by (simp add: combined_cols_def)
  then have "process_output parse df_merged (dict_flags\<lparr>r2_threshold := t\<rparr>) cols = process_output parse df_merged dict_flags cols"
    using m0 by (simp add: process_output_def Let_def split: sum.splits prod.splits)
  then show ?thesis using o ik ie by simp
qed

theorem missing_allowed_classification_witness:
  "\<exists>out. process_output parse_example three_merged three_flags [0, 1, 2] = Inr out
      \<and> 1 \<in> fst ` set (variants_kept out) \<and> 1 \<notin> fst ` set (variants_excluded out)
      \<and> 2 \<in> fst ` set (variants_excluded out) \<and> 2 \<notin> fst ` set (variants_kept out)
      \<and> process_output parse_example three_merged (three_flags\<lparr>r2_threshold := 9 / 10\<rparr>) [0, 1, 2] = Inr out"
proof -
  have n: "input three_flags \<noteq> []" and m: "0 < missing three_flags" and l: "length (input three_flags) = 3"
    and mm: "missing three_flags = 1"
    by (simp_all add: three_flags_def)
  have i1: "1 < length three_merged" and i2: "2 < length three_merged"
    by (simp_all add: three_merged_def)
  have s1: "{g. g < 3 \<and> rsq_cell parse_example three_merged 1 g \<noteq> NaN} = {0, 1}"
    unfolding less_three by (auto simp: three_merged_def parse_example_def na_cells_def)
  have s2: "{g. g < 3 \<and> rsq_cell parse_example three_merged 2 g \<noteq> NaN} = {0}"
    unfolding less_three by (auto simp: three_merged_def parse_example_def na_cells_def)
  from missing_allowed_classification[OF n m i1, of parse_example "[0, 1, 2]" "9 / 10"] obtain out where
    o: "process_output parse_example three_merged three_flags [0, 1, 2] = Inr out"
    and k1: "1 \<in> fst ` set (variants_kept out)" and e1: "1 \<notin> fst ` set (variants_excluded out)"
    and t: "process_output parse_example three_merged (three_flags\<lparr>r2_threshold := 9 / 10\<rparr>) [0, 1, 2] = Inr out"
    unfolding l mm s1 by auto
  from missing_allowed_classification[OF n m i2, of parse_example "[0, 1, 2]" "9 / 10"] o
  have "2 \<in> fst ` set (variants_excluded out) \<and> 2 \<notin> fst ` set (variants_kept out)"
    unfolding l mm s2 by auto
  then show ?thesis using o k1 e1 t by blast
qed

section \<open>The order of the written rows\<close>

lemma example_sum_index: "sum_index_col example_merged [0, 1] = [1, 3, 1]"
  by (simp add: sum_index_col_def example_merged_def na_cells_def)

lemma example_to_numeric: "map (to_numeric_row parse_example 2) example_merged = example_num"
  by (simp add: to_numeric_row_def example_merged_def example_num_def parse_example_def to_numeric_def
      na_cells_def upt_rec)

text \<open>
  Claim C4 at the example input, with \<open>missing = 1\<close>: all three rows are kept, and they are
  written in the row order of the merge, with the sort keys 1, 3, 1.
\<close>

theorem emitted_rows_not_sorted:
  "map_sum id (\<lambda>out. map (\<lambda>lr. (fst lr, sum_index_NA_ffilled (snd lr))) (variants_kept out))
     (get_snp_list parse_example (example_flags 1 0 ''mean'')) = Inr [(0, 1), (1, 3), (2, 1)]"
proof -
  have f: "input (example_flags 1 0 ''mean'') \<noteq> []" "length (input (example_flags 1 0 ''mean'')) = 2"
    "missing (example_flags 1 0 ''mean'') = 1" "r2_output (example_flags 1 0 ''mean'') = ''mean''"
    by (simp_all add: example_flags_def)
  have g: "get_snp_list parse_example (example_flags 1 0 ''mean'')
      = process_output parse_example example_merged (example_flags 1 0 ''mean'') [0, 1]"
    by (simp add: get_snp_list_def example_merge)
  show ?thesis
    unfolding g process_output_def Let_def f example_to_numeric example_sum_index
    by (simp add: example_num_def combined_cols_def f assemble_def enumerate_eq_zip upt_rec rsq_values_def notna_def
        iloc_def drop_rows_def drop_columns_def)
qed

section \<open>The combined columns of the weighted mode\<close>

lemma nansum_Nil: "nansum [] = Fin 0"
  by (simp add: nansum_def)

lemma nansum_Cons: "nansum (v # vs) = (if v = NaN then nansum vs else fadd v (nansum vs))"
  by (simp add: nansum_def notna_def)

lemma nansum_finite:
  assumes "\<forall>v\<in>set vs. \<not> is_Inf v"
  shows "nansum vs = Fin (\<Sum>v\<leftarrow>vs. case v of Fin a \<Rightarrow> a | _ \<Rightarrow> 0)"
  using assms
proof (induction vs)
  case Nil
  then show ?case by (simp add: nansum_Nil)
next
  case (Cons v vs)
  then show ?case by (cases v) (simp_all add: nansum_Cons)
qed

lemma sum_list_upt: "(\<Sum>i\<leftarrow>[0..<n]. f i) = (\<Sum>i<n. f i)"
  by (simp add: interv_sum_list_conv_sum_set_nat atLeast0LessThan)

lemma adj_entry:
  assumes "\<not> is_Inf v"
  shows "fmul v (Fin n) = (case v of Fin a \<Rightarrow> Fin (a * n) | _ \<Rightarrow> NaN)"
  using assms by (cases v) simp_all

lemma nansum_adj_col:
  assumes "\<forall>i<length ns. \<not> is_Inf (col (groups r ! i))"
  shows "nansum (adj_col col ns r) = Fin (\<Sum>i<length ns. case col (groups r ! i) of Fin a \<Rightarrow> a * real (ns ! i) | _ \<Rightarrow> 0)"
proof -
  have e: "fmul (col (groups r ! i)) (Fin (real (ns ! i)))
      = (case col (groups r ! i) of Fin a \<Rightarrow> Fin (a * real (ns ! i)) | _ \<Rightarrow> NaN)" if "i < length ns" for i
    using assms that by (simp add: adj_entry)
  have a: "adj_col col ns r = map (\<lambda>i. case col (groups r ! i) of Fin a \<Rightarrow> Fin (a * real (ns ! i)) | _ \<Rightarrow> NaN) [0..<length ns]"
    unfolding adj_col_def by (rule map_cong) (simp_all add: e)
  have f: "\<forall>v\<in>set (adj_col col ns r). \<not> is_Inf v"
    unfolding a by (auto split: float64.splits)
  have "nansum (adj_col col ns r) = Fin (\<Sum>v\<leftarrow>adj_col col ns r. case v of Fin a \<Rightarrow> a | _ \<Rightarrow> 0)"
    by (rule nansum_finite[OF f])
  also have "(\<Sum>v\<leftarrow>adj_col col ns r. case v of Fin a \<Rightarrow> a | _ \<Rightarrow> 0)
      = (\<Sum>i\<leftarrow>[0..<length ns]. case col (groups r ! i) of Fin a \<Rightarrow> a * real (ns ! i) | _ \<Rightarrow> 0)"
    unfolding a map_map comp_def
    by (rule arg_cong[where f = sum_list], rule map_cong) (simp_all split: float64.splits)
  finally show ?thesis by (simp only: sum_list_upt)
qed

lemma weighted_freq_finite:
  assumes "\<forall>i<length ns. \<not> is_Inf (col (groups r ! i))"
  shows "weighted_freq col ns r =
     (if sum_list ns = 0 then NaN
      else Fin ((\<Sum>i<length ns. case col (groups r ! i) of Fin a \<Rightarrow> a * real (ns ! i) | _ \<Rightarrow> 0) / real (sum_list ns)))"
proof (cases "sum_list ns = 0")
  case True
  then have z: "\<forall>n\<in>set ns. n = 0" by simp
  have "(\<Sum>i<length ns. case col (groups r ! i) of Fin a \<Rightarrow> a * real (ns ! i) | _ \<Rightarrow> 0) = 0"
    by (rule sum.neutral) (use z in \<open>auto split: float64.splits\<close>)
  then show ?thesis
    using True by (simp add: weighted_freq_def nansum_adj_col[OF assms])
next
  case False
  then show ?thesis
    by (simp add: weighted_freq_def nansum_adj_col[OF assms])
qed

lemma calculate_nth:
  assumes "j < length df_merged"
  shows "fst (calculate_weighted_r2_maf_altFrq df_merged lst_input_fn) ! j =
     (weighted_r2 (map individuals lst_input_fn) (df_merged ! j),
      Some (weighted_freq MAF_group (map individuals lst_input_fn) (df_merged ! j)),
      Some (weighted_freq ALT_Frq_group (map individuals lst_input_fn) (df_merged ! j)))"
  using assms by (simp add: calculate_weighted_r2_maf_altFrq_def Let_def)

lemma weight_entry:
  "fdiv (fmul (Fin n) v) v = (case v of Fin a \<Rightarrow> if a = 0 then NaN else Fin n | _ \<Rightarrow> NaN)"
  by (cases v) simp_all

lemma weight_adj_col_eq:
  "weight_adj_col ns r =
     map (\<lambda>i. case Rsq_group (groups r ! i) of Fin a \<Rightarrow> if a = 0 then NaN else Fin (real (ns ! i)) | _ \<Rightarrow> NaN)
         [0..<length ns]"
  by (simp add: weight_adj_col_def weight_entry)

lemma sum_list_filter_upt:
  "(\<Sum>i\<leftarrow>[0..<n]. if P i then f i else 0) = (\<Sum>i\<in>{i. i < n \<and> P i}. f i)"
proof -
  have "(\<Sum>i\<leftarrow>[0..<n]. if P i then f i else 0) = (\<Sum>i<n. if P i then f i else 0)"
    by (rule sum_list_upt)
  also have "\<dots> = (\<Sum>i\<in>{..<n} \<inter> {i. P i}. f i)"
    by (simp add: sum.If_cases)
  also have "{..<n} \<inter> {i. P i} = {i. i < n \<and> P i}" by auto
  finally show ?thesis .
qed

lemma nansum_weight_adj_col:
  "nansum (weight_adj_col ns r)
     = Fin (\<Sum>i\<in>{i. i < length ns \<and> (\<exists>a. a \<noteq> 0 \<and> Rsq_group (groups r ! i) = Fin a)}. real (ns ! i))"
proof -
  let ?P = "\<lambda>i. \<exists>a. a \<noteq> 0 \<and> Rsq_group (groups r ! i) = Fin a"
  have f: "\<forall>v\<in>set (weight_adj_col ns r). \<not> is_Inf v"
    unfolding weight_adj_col_eq by (auto split: float64.splits)
  have "nansum (weight_adj_col ns r) = Fin (\<Sum>v\<leftarrow>weight_adj_col ns r. case v of Fin a \<Rightarrow> a | _ \<Rightarrow> 0)"
    by (rule nansum_finite[OF f])
  also have "(\<Sum>v\<leftarrow>weight_adj_col ns r. case v of Fin a \<Rightarrow> a | _ \<Rightarrow> 0)
      = (\<Sum>i\<leftarrow>[0..<length ns]. if ?P i then real (ns ! i) else 0)"
    unfolding weight_adj_col_eq map_map comp_def
    by (rule arg_cong[where f = sum_list], rule map_cong) (auto split: float64.splits)
  also have "\<dots> = (\<Sum>i\<in>{i. i < length ns \<and> ?P i}. real (ns ! i))"
    by (rule sum_list_filter_upt)
  finally show ?thesis .
qed

text \<open>
  Where no present Rsq is 0, \<open>Rsq_combined\<close> is the sum of Rsq times the number of
  individuals over the cohorts with a present Rsq, divided by the sum of the numbers of
  individuals of these cohorts.
\<close>

lemma weighted_r2_nonzero:
  assumes "\<forall>i<length ns. \<not> is_Inf (Rsq_group (groups r ! i)) \<and> Rsq_group (groups r ! i) \<noteq> Fin 0"
  shows "weighted_r2 ns r =
     fdiv (Fin (\<Sum>i\<in>{i. i < length ns \<and> notna (Rsq_group (groups r ! i))}.
                  case Rsq_group (groups r ! i) of Fin a \<Rightarrow> a * real (ns ! i) | _ \<Rightarrow> 0))
          (Fin (\<Sum>i\<in>{i. i < length ns \<and> notna (Rsq_group (groups r ! i))}. real (ns ! i)))"
proof -
  let ?v = "\<lambda>i. Rsq_group (groups r ! i)"
  have fin: "\<forall>i<length ns. \<not> is_Inf (?v i)" using assms by blast
  have "(\<Sum>i<length ns. case ?v i of Fin a \<Rightarrow> a * real (ns ! i) | _ \<Rightarrow> 0)
      = (\<Sum>i\<in>{i. i < length ns \<and> notna (?v i)}. case ?v i of Fin a \<Rightarrow> a * real (ns ! i) | _ \<Rightarrow> 0)"
    by (rule sum.mono_neutral_right) (auto simp: notna_def)
  then have num: "nansum (adj_col Rsq_group ns r)
      = Fin (\<Sum>i\<in>{i. i < length ns \<and> notna (?v i)}. case ?v i of Fin a \<Rightarrow> a * real (ns ! i) | _ \<Rightarrow> 0)"
    using nansum_adj_col[of ns Rsq_group r, OF fin] by simp
  have "(\<exists>a. a \<noteq> 0 \<and> ?v i = Fin a) \<longleftrightarrow> notna (?v i)" if "i < length ns" for i
    using assms that by (cases "?v i") (auto simp: notna_def)
  then have "{i. i < length ns \<and> (\<exists>a. a \<noteq> 0 \<and> ?v i = Fin a)} = {i. i < length ns \<and> notna (?v i)}"
    by blast
  then have den: "nansum (weight_adj_col ns r) = Fin (\<Sum>i\<in>{i. i < length ns \<and> notna (?v i)}. real (ns ! i))"
    using nansum_weight_adj_col[of ns r] by simp
  show ?thesis by (simp only: weighted_r2_def num den)
qed

lemma example_inputs:
  "length (input (example_flags m thr mode)) = 2"
  "map individuals (input (example_flags m thr mode)) = [100, 50]"
  "individuals (input (example_flags m thr mode) ! 0) = 100"
  "individuals (input (example_flags m thr mode) ! Suc 0) = 50"
  by (simp_all add: example_flags_def)

lemma set_select: "set (select xs bs) \<subseteq> set xs"
  by (auto simp: select_def dest: set_zip_leftD)

lemma set_iloc: "\<forall>i\<in>set inx. i < length xs \<Longrightarrow> set (iloc xs inx) \<subseteq> set xs"
  by (auto simp: iloc_def)

lemma set_drop_rows: "set (drop_rows xs inx) \<subseteq> set xs"
  by (auto simp: drop_rows_def)

lemma length_assemble: "length (assemble df sum_ix comb) = length df"
  by (simp add: assemble_def)

lemma enumerate_labels: "\<forall>i\<in>set (map fst (filter P (enumerate 0 xs))). i < length xs"
  by (auto simp: enumerate_eq_zip dest: set_zip_leftD)

text \<open>
  What a written row holds in the combined columns: the entries of \<open>comb\<close> at its label.
\<close>

lemma process_output_emitted:
  assumes c: "combined_cols dict_flags (map (to_numeric_row parse (length (input dict_flags))) df_merged) = Inr (comb, ns)"
    and o: "process_output parse df_merged dict_flags cols = Inr out"
    and lr: "lr \<in> set (variants_kept out) \<union> set (variants_excluded out)"
  shows "fst lr < length df_merged \<and> Rsq_combined (snd lr) = fst (comb ! fst lr)
      \<and> MAF_combined (snd lr) = fst (snd (comb ! fst lr))
      \<and> ALT_Frq_combined (snd lr) = snd (snd (comb ! fst lr))"
proof -
  define df_num where "df_num = map (to_numeric_row parse (length (input dict_flags))) df_merged"
  define df where "df = assemble df_num (sum_index_col df_merged cols) comb"
  have len: "length df = length df_merged"
    by (simp add: df_def df_num_def length_assemble)
  have el: "fst x < length df_merged \<and> Rsq_combined (snd x) = fst (comb ! fst x)
      \<and> MAF_combined (snd x) = fst (snd (comb ! fst x))
      \<and> ALT_Frq_combined (snd x) = snd (snd (comb ! fst x))" if "x \<in> set df" for x
    using that by (auto simp: df_def assemble_def df_num_def)
  have sub: "set (variants_kept out) \<union> set (variants_excluded out) \<subseteq> drop_columns cols ` set df"
  proof (cases "missing dict_flags = 0")
    case True
    define mk where "mk = map (\<lambda>m. fst (the m)) (map (\<lambda>r. row_masks (r2_threshold dict_flags) (rsq_values r)) df_num)"
    define me where "me = map (\<lambda>m. snd (the m)) (map (\<lambda>r. row_masks (r2_threshold dict_flags) (rsq_values r)) df_num)"
    have "variants_kept out = map (drop_columns cols) (select df mk)
        \<and> variants_excluded out = map (drop_columns cols) (select df me)"
      using o c True
      by (auto simp: process_output_def Let_def df_def df_num_def mk_def me_def split: if_splits)
    then show ?thesis using set_select[of df mk] set_select[of df me] by auto
  next
    case False
    define inx where "inx = map fst (filter (\<lambda>lr. int (length (input dict_flags)) - missing dict_flags
        \<le> int (length (filter notna (rsq_values (snd lr))))) (enumerate 0 df_num))"
    have "length df_num = length df"
      by (simp add: len df_num_def)
    then have r: "\<forall>i\<in>set inx. i < length df"
      unfolding inx_def using enumerate_labels[of _ df_num] by metis
    have "variants_kept out = map (drop_columns cols) (iloc df inx)
        \<and> variants_excluded out = map (drop_columns cols) (drop_rows df inx)"
      using o c False
      by (auto simp: process_output_def Let_def df_def df_num_def inx_def)
    then show ?thesis using set_iloc[OF r] set_drop_rows[of df inx] by auto
  qed
  from lr sub obtain x where x: "x \<in> set df" and e: "lr = drop_columns cols x" by auto
  show ?thesis using el[OF x] unfolding e by (simp add: drop_columns_def)
qed


lemma groups_to_numeric_row:
  "g < n \<Longrightarrow> groups (to_numeric_row parse n r) ! g = map_cells id (to_numeric parse) (groups r ! g)"
  by (simp add: to_numeric_row_def)

lemma numeric_cells:
  assumes "g < n"
  shows "Rsq_group (groups (to_numeric_row parse n r) ! g) = cell_value parse (Rsq_group (groups r ! g))"
    and "MAF_group (groups (to_numeric_row parse n r) ! g) = cell_value parse (MAF_group (groups r ! g))"
    and "ALT_Frq_group (groups (to_numeric_row parse n r) ! g) = cell_value parse (ALT_Frq_group (groups r ! g))"
  using assms by (simp_all add: groups_to_numeric_row cells.map_sel to_numeric_def)

text \<open>
  The weighted mode: every row of the merged frame is written, with the columns
  \<open>__calculate_weighted_r2_maf_altFrq\<close> computes from its numeric cells.
\<close>

lemma weighted_mode_rows:
  assumes w: "r2_output dict_flags = ''weighted_average''" and n: "input dict_flags \<noteq> []"
    and i: "i < length df_merged"
  shows "\<exists>out. process_output parse df_merged dict_flags cols = Inr out
      \<and> (\<exists>lr\<in>set (variants_kept out) \<union> set (variants_excluded out). fst lr = i)
      \<and> (\<forall>lr\<in>set (variants_kept out) \<union> set (variants_excluded out). fst lr = i \<longrightarrow>
            Rsq_combined (snd lr)
              = weighted_r2 (map individuals (input dict_flags))
                  (to_numeric_row parse (length (input dict_flags)) (df_merged ! i))
          \<and> MAF_combined (snd lr)
              = Some (weighted_freq MAF_group (map individuals (input dict_flags))
                  (to_numeric_row parse (length (input dict_flags)) (df_merged ! i)))
          \<and> ALT_Frq_combined (snd lr)
              = Some (weighted_freq ALT_Frq_group (map individuals (input dict_flags))
                  (to_numeric_row parse (length (input dict_flags)) (df_merged ! i))))"
proof -
  define df_num where "df_num = map (to_numeric_row parse (length (input dict_flags))) df_merged"
  define comb where "comb = fst (calculate_weighted_r2_maf_altFrq df_num (input dict_flags))"
  define ns where "ns = snd (calculate_weighted_r2_maf_altFrq df_num (input dict_flags))"
  have c: "combined_cols dict_flags df_num = Inr (comb, ns)"
    using w by (simp add: combined_cols_def comb_def ns_def)
  have j: "i < length df_num" using i by (simp add: df_num_def)
  have ci: "comb ! i =
     (weighted_r2 (map individuals (input dict_flags)) (df_num ! i),
      Some (weighted_freq MAF_group (map individuals (input dict_flags)) (df_num ! i)),
      Some (weighted_freq ALT_Frq_group (map individuals (input dict_flags)) (df_num ! i)))"
    unfolding comb_def by (rule calculate_nth[OF j])
  have di: "df_num ! i = to_numeric_row parse (length (input dict_flags)) (df_merged ! i)"
    using i by (simp add: df_num_def)
  from process_output_labels[OF n, of parse df_merged cols] obtain out K where
    o: "process_output parse df_merged dict_flags cols = Inr out"
    and k: "map fst (variants_kept out) = filter K [0..<length df_merged]"
    and e: "map fst (variants_excluded out) = filter (\<lambda>i. \<not> K i) [0..<length df_merged]"
    by blast
  have "i \<in> set (map fst (variants_kept out)) \<union> set (map fst (variants_excluded out))"
    unfolding k e using i by auto
  then have ex: "\<exists>lr\<in>set (variants_kept out) \<union> set (variants_excluded out). fst lr = i"
    by auto
  have al: "Rsq_combined (snd lr) = fst (comb ! i) \<and> MAF_combined (snd lr) = fst (snd (comb ! i))
      \<and> ALT_Frq_combined (snd lr) = snd (snd (comb ! i))"
    if "lr \<in> set (variants_kept out) \<union> set (variants_excluded out)" "fst lr = i" for lr
    using process_output_emitted[OF c[unfolded df_num_def] o that(1)] that(2) by simp
  show ?thesis
    apply (rule exI[of _ out])
    using o ex al unfolding ci di by simp
qed

lemma weighted_freq_raw:
  assumes col: "\<And>g. g < length lst_input_fn \<Longrightarrow>
      coln (groups (to_numeric_row parse (length lst_input_fn) r) ! g) = cell_value parse (cols (groups r ! g))"
    and fin: "\<forall>g<length lst_input_fn. \<not> is_Inf (cell_value parse (cols (groups r ! g)))"
    and tot: "0 < (\<Sum>f\<leftarrow>lst_input_fn. individuals f)"
  shows "weighted_freq coln (map individuals lst_input_fn) (to_numeric_row parse (length lst_input_fn) r)
     = Fin ((\<Sum>g<length lst_input_fn. case cell_value parse (cols (groups r ! g)) of
                 Fin x \<Rightarrow> x * real (individuals (lst_input_fn ! g)) | _ \<Rightarrow> 0)
            / real (\<Sum>f\<leftarrow>lst_input_fn. individuals f))"
proof -
  let ?ns = "map individuals lst_input_fn"
  let ?r = "to_numeric_row parse (length lst_input_fn) r"
  have f: "\<forall>g<length ?ns. \<not> is_Inf (coln (groups ?r ! g))"
    using fin col by simp
  have n': "sum_list ?ns \<noteq> 0" by (rule gr_implies_not0[OF tot])
  have s: "(\<Sum>g<length ?ns. case coln (groups ?r ! g) of Fin x \<Rightarrow> x * real (?ns ! g) | _ \<Rightarrow> 0)
      = (\<Sum>g<length lst_input_fn. case cell_value parse (cols (groups r ! g)) of
            Fin x \<Rightarrow> x * real (individuals (lst_input_fn ! g)) | _ \<Rightarrow> 0)"
    by (rule sum.cong) (simp_all add: col split: float64.splits)
  show ?thesis
    unfolding weighted_freq_finite[OF f] s using n' by simp
qed

text \<open>
  Claim C7.  In the mode \<open>weighted_average\<close>, for every row of the merged frame whose MAF
  and ALT_Frq cells are finite or missing, and a positive total number of individuals,
  the row is written with \<open>MAF_combined\<close> equal to the sum over all cohorts of MAF times
  the cohort's number of individuals, a missing MAF counting 0, divided by the sum of
  the numbers of individuals of all cohorts; \<open>ALT_Frq_combined\<close> likewise.
\<close>

theorem weighted_mode_maf_alt_frq:
  assumes w: "r2_output dict_flags = ''weighted_average''" and n: "input dict_flags \<noteq> []"
    and i: "i < length df_merged"
    and fm: "\<forall>g<length (input dict_flags). \<not> is_Inf (maf_cell parse df_merged i g)"
    and fa: "\<forall>g<length (input dict_flags). \<not> is_Inf (alt_frq_cell parse df_merged i g)"
    and tot: "0 < (\<Sum>f\<leftarrow>input dict_flags. individuals f)"
  shows "\<exists>out. process_output parse df_merged dict_flags cols = Inr out
      \<and> (\<exists>lr\<in>set (variants_kept out) \<union> set (variants_excluded out). fst lr = i)
      \<and> (\<forall>lr\<in>set (variants_kept out) \<union> set (variants_excluded out). fst lr = i \<longrightarrow>
            MAF_combined (snd lr)
              = Some (Fin ((\<Sum>g<length (input dict_flags). case maf_cell parse df_merged i g of
                               Fin x \<Rightarrow> x * real (individuals (input dict_flags ! g)) | _ \<Rightarrow> 0)
                           / real (\<Sum>f\<leftarrow>input dict_flags. individuals f)))
          \<and> ALT_Frq_combined (snd lr)
              = Some (Fin ((\<Sum>g<length (input dict_flags). case alt_frq_cell parse df_merged i g of
                               Fin x \<Rightarrow> x * real (individuals (input dict_flags ! g)) | _ \<Rightarrow> 0)
                           / real (\<Sum>f\<leftarrow>input dict_flags. individuals f))))"
proof -
  have m: "weighted_freq MAF_group (map individuals (input dict_flags))
        (to_numeric_row parse (length (input dict_flags)) (df_merged ! i))
     = Fin ((\<Sum>g<length (input dict_flags). case maf_cell parse df_merged i g of
                 Fin x \<Rightarrow> x * real (individuals (input dict_flags ! g)) | _ \<Rightarrow> 0)
            / real (\<Sum>f\<leftarrow>input dict_flags. individuals f))"
    by (rule weighted_freq_raw[where cols = MAF_group, OF numeric_cells(2) fm tot])
  have a: "weighted_freq ALT_Frq_group (map individuals (input dict_flags))
        (to_numeric_row parse (length (input dict_flags)) (df_merged ! i))
     = Fin ((\<Sum>g<length (input dict_flags). case alt_frq_cell parse df_merged i g of
                 Fin x \<Rightarrow> x * real (individuals (input dict_flags ! g)) | _ \<Rightarrow> 0)
            / real (\<Sum>f\<leftarrow>input dict_flags. individuals f))"
    by (rule weighted_freq_raw[where cols = ALT_Frq_group, OF numeric_cells(3) fa tot])
  from weighted_mode_rows[OF w n i, of parse cols] obtain out where
    o: "process_output parse df_merged dict_flags cols = Inr out"
    and ex: "\<exists>lr\<in>set (variants_kept out) \<union> set (variants_excluded out). fst lr = i"
    and al: "\<forall>lr\<in>set (variants_kept out) \<union> set (variants_excluded out). fst lr = i \<longrightarrow>
          MAF_combined (snd lr)
              = Some (weighted_freq MAF_group (map individuals (input dict_flags))
                  (to_numeric_row parse (length (input dict_flags)) (df_merged ! i)))
          \<and> ALT_Frq_combined (snd lr)
              = Some (weighted_freq ALT_Frq_group (map individuals (input dict_flags))
                  (to_numeric_row parse (length (input dict_flags)) (df_merged ! i)))"
    by blast
  show ?thesis
    by (rule exI[of _ out]) (intro conjI o ex al[unfolded m a])
qed

theorem weighted_mode_maf_alt_frq_witness:
  "\<exists>out. process_output parse_example example_merged (example_flags 0 0 ''weighted_average'') [0, 1] = Inr out
      \<and> (\<exists>lr\<in>set (variants_kept out) \<union> set (variants_excluded out). fst lr = 2)
      \<and> (\<forall>lr\<in>set (variants_kept out) \<union> set (variants_excluded out). fst lr = 2 \<longrightarrow>
            MAF_combined (snd lr) = Some (Fin (1 / 6)) \<and> ALT_Frq_combined (snd lr) = Some (Fin (1 / 6)))"
proof -
  let ?f = "example_flags 0 0 ''weighted_average''"
  have w: "r2_output ?f = ''weighted_average''" and n: "input ?f \<noteq> []"
    by (simp_all add: example_flags_def)
  have i: "2 < length example_merged" by (simp add: example_merged_def)
  have c0: "maf_cell parse_example example_merged 2 0 = NaN" "alt_frq_cell parse_example example_merged 2 0 = NaN"
    and c1: "maf_cell parse_example example_merged 2 (Suc 0) = Fin (1 / 2)"
      "alt_frq_cell parse_example example_merged 2 (Suc 0) = Fin (1 / 2)"
    by (simp_all add: example_merged_def na_cells_def parse_example_def)
  have fm: "\<forall>g<length (input ?f). \<not> is_Inf (maf_cell parse_example example_merged 2 g)"
    unfolding example_inputs less_two using c0 c1 by auto
  have fa: "\<forall>g<length (input ?f). \<not> is_Inf (alt_frq_cell parse_example example_merged 2 g)"
    unfolding example_inputs less_two using c0 c1 by auto
  have tot: "0 < (\<Sum>f\<leftarrow>input ?f. individuals f)"
    unfolding example_inputs by simp
  have two: "{..<2::nat} = {0, Suc 0}" by auto
  have sm: "(\<Sum>g<length (input ?f). case maf_cell parse_example example_merged 2 g of
                 Fin x \<Rightarrow> x * real (individuals (input ?f ! g)) | _ \<Rightarrow> 0) / real (\<Sum>f\<leftarrow>input ?f. individuals f) = 1 / 6"
    unfolding example_inputs two by (simp add: c0 c1 example_inputs)
  have sa: "(\<Sum>g<length (input ?f). case alt_frq_cell parse_example example_merged 2 g of
                 Fin x \<Rightarrow> x * real (individuals (input ?f ! g)) | _ \<Rightarrow> 0) / real (\<Sum>f\<leftarrow>input ?f. individuals f) = 1 / 6"
    unfolding example_inputs two by (simp add: c0 c1 example_inputs)
  from weighted_mode_maf_alt_frq[OF w n i fm fa tot, of "[0, 1]"] show ?thesis
    unfolding sm sa .
qed

text \<open>
  Claim C9.  In the mode \<open>weighted_average\<close>, for every row of the merged frame whose
  Rsq is missing in every cohort, \<open>__process_output\<close> raises no error and writes the row
  with \<open>Rsq_combined\<close> NaN.
\<close>

theorem weighted_mode_all_absent:
  assumes w: "r2_output dict_flags = ''weighted_average''" and n: "input dict_flags \<noteq> []"
    and i: "i < length df_merged"
    and a: "\<forall>g<length (input dict_flags). rsq_cell parse df_merged i g = NaN"
  shows "\<exists>out. process_output parse df_merged dict_flags cols = Inr out
      \<and> (\<exists>lr\<in>set (variants_kept out) \<union> set (variants_excluded out). fst lr = i)
      \<and> (\<forall>lr\<in>set (variants_kept out) \<union> set (variants_excluded out). fst lr = i \<longrightarrow>
            Rsq_combined (snd lr) = NaN)"
proof -
  let ?ns = "map individuals (input dict_flags)"
  let ?r = "to_numeric_row parse (length (input dict_flags)) (df_merged ! i)"
  have 1: "adj_col Rsq_group ?ns ?r = map (\<lambda>g. NaN) [0..<length ?ns]"
    unfolding adj_col_def by (rule map_cong) (use a in \<open>simp_all add: numeric_cells(1)\<close>)
  have 2: "weight_adj_col ?ns ?r = map (\<lambda>g. NaN) [0..<length ?ns]"
    unfolding weight_adj_col_def by (rule map_cong) (use a in \<open>simp_all add: numeric_cells(1)\<close>)
  have 3: "nansum (map (\<lambda>g. NaN) xs) = Fin 0" for xs :: "nat list"
    by (induction xs) (simp_all add: nansum_Nil nansum_Cons)
  have r: "weighted_r2 ?ns ?r = NaN"
    by (simp add: weighted_r2_def 1 2 3)
  from weighted_mode_rows[OF w n i, of parse cols] obtain out where
    o: "process_output parse df_merged dict_flags cols = Inr out"
    and ex: "\<exists>lr\<in>set (variants_kept out) \<union> set (variants_excluded out). fst lr = i"
    and al: "\<forall>lr\<in>set (variants_kept out) \<union> set (variants_excluded out). fst lr = i \<longrightarrow>
          Rsq_combined (snd lr) = weighted_r2 ?ns ?r"
    by blast
  show ?thesis
    by (rule exI[of _ out]) (intro conjI o ex al[unfolded r])
qed

theorem weighted_mode_all_absent_witness:
  "\<exists>out. process_output parse_example absent_merged (example_flags 0 0 ''weighted_average'') [0, 1] = Inr out
      \<and> (\<exists>lr\<in>set (variants_kept out) \<union> set (variants_excluded out). fst lr = 0)
      \<and> (\<forall>lr\<in>set (variants_kept out) \<union> set (variants_excluded out). fst lr = 0 \<longrightarrow>
            Rsq_combined (snd lr) = NaN)"
proof -
  let ?f = "example_flags 0 0 ''weighted_average''"
  have w: "r2_output ?f = ''weighted_average''" and n: "input ?f \<noteq> []"
    by (simp_all add: example_flags_def)
  have i: "0 < length absent_merged" by (simp add: absent_merged_def)
  have a: "\<forall>g<length (input ?f). rsq_cell parse_example absent_merged 0 g = NaN"
    unfolding example_inputs less_two by (simp add: absent_merged_def)
  show ?thesis by (rule weighted_mode_all_absent[OF w n i a])
qed

text \<open>
  Claim C10.  In the mode \<open>weighted_average\<close>, every row of the merged frame is written
  with \<open>Rsq_combined\<close> equal to the sum of Rsq times the number of individuals over the
  cohorts, divided by the sum of the numbers of individuals of those cohorts only whose
  Rsq is finite and not 0: a cohort whose Rsq is present and 0 is left out of the
  denominator, as one whose Rsq is missing.
\<close>

theorem weighted_mode_r2_denominator:
  assumes w: "r2_output dict_flags = ''weighted_average''" and n: "input dict_flags \<noteq> []"
    and i: "i < length df_merged"
  shows "\<exists>out. process_output parse df_merged dict_flags cols = Inr out
      \<and> (\<exists>lr\<in>set (variants_kept out) \<union> set (variants_excluded out). fst lr = i)
      \<and> (\<forall>lr\<in>set (variants_kept out) \<union> set (variants_excluded out). fst lr = i \<longrightarrow>
            Rsq_combined (snd lr)
              = fdiv (nansum (map (\<lambda>g. fmul (rsq_cell parse df_merged i g)
                                           (Fin (real (individuals (input dict_flags ! g)))))
                                  [0..<length (input dict_flags)]))
                     (Fin (\<Sum>g\<in>{g. g < length (input dict_flags)
                                    \<and> (\<exists>a. a \<noteq> 0 \<and> rsq_cell parse df_merged i g = Fin a)}.
                              real (individuals (input dict_flags ! g)))))"
proof -
  let ?ns = "map individuals (input dict_flags)"
  let ?r = "to_numeric_row parse (length (input dict_flags)) (df_merged ! i)"
  have num: "adj_col Rsq_group ?ns ?r
      = map (\<lambda>g. fmul (rsq_cell parse df_merged i g) (Fin (real (individuals (input dict_flags ! g)))))
            [0..<length (input dict_flags)]"
    unfolding adj_col_def by (simp add: numeric_cells(1))
  have st: "{g. g < length ?ns \<and> (\<exists>a. a \<noteq> 0 \<and> Rsq_group (groups ?r ! g) = Fin a)}
      = {g. g < length (input dict_flags) \<and> (\<exists>a. a \<noteq> 0 \<and> rsq_cell parse df_merged i g = Fin a)}"
    by (auto simp: numeric_cells(1))
  have "(\<Sum>g\<in>{g. g < length ?ns \<and> (\<exists>a. a \<noteq> 0 \<and> Rsq_group (groups ?r ! g) = Fin a)}. real (?ns ! g))
      = (\<Sum>g\<in>{g. g < length (input dict_flags) \<and> (\<exists>a. a \<noteq> 0 \<and> rsq_cell parse df_merged i g = Fin a)}.
            real (individuals (input dict_flags ! g)))"
    unfolding st by (rule sum.cong) simp_all
  then have den: "nansum (weight_adj_col ?ns ?r)
      = Fin (\<Sum>g\<in>{g. g < length (input dict_flags) \<and> (\<exists>a. a \<noteq> 0 \<and> rsq_cell parse df_merged i g = Fin a)}.
            real (individuals (input dict_flags ! g)))"
    by (simp only: nansum_weight_adj_col)
  have r: "weighted_r2 ?ns ?r
      = fdiv (nansum (map (\<lambda>g. fmul (rsq_cell parse df_merged i g)
                                   (Fin (real (individuals (input dict_flags ! g)))))
                          [0..<length (input dict_flags)]))
             (Fin (\<Sum>g\<in>{g. g < length (input dict_flags)
                            \<and> (\<exists>a. a \<noteq> 0 \<and> rsq_cell parse df_merged i g = Fin a)}.
                      real (individuals (input dict_flags ! g))))"
    by (simp only: weighted_r2_def num den)
  from weighted_mode_rows[OF w n i, of parse cols] obtain out where
    o: "process_output parse df_merged dict_flags cols = Inr out"
    and ex: "\<exists>lr\<in>set (variants_kept out) \<union> set (variants_excluded out). fst lr = i"
    and al: "\<forall>lr\<in>set (variants_kept out) \<union> set (variants_excluded out). fst lr = i \<longrightarrow>
          Rsq_combined (snd lr) = weighted_r2 ?ns ?r"
    by blast
  show ?thesis
    by (rule exI[of _ out]) (intro conjI o ex al[unfolded r])
qed

theorem weighted_mode_r2_denominator_witness:
  "\<exists>out. process_output parse_example zero_r2_merged zero_r2_flags [0, 1] = Inr out
      \<and> (\<exists>lr\<in>set (variants_kept out) \<union> set (variants_excluded out). fst lr = 0)
      \<and> (\<forall>lr\<in>set (variants_kept out) \<union> set (variants_excluded out). fst lr = 0 \<longrightarrow>
            Rsq_combined (snd lr) = Fin (4 / 5))"
proof -
  have w: "r2_output zero_r2_flags = ''weighted_average''" and n: "input zero_r2_flags \<noteq> []"
    and l: "length (input zero_r2_flags) = 2"
    and ns: "individuals (input zero_r2_flags ! 0) = 100" "individuals (input zero_r2_flags ! Suc 0) = 50"
    by (simp_all add: zero_r2_flags_def)
  have i: "0 < length zero_r2_merged" by (simp add: zero_r2_merged_def)
  have c: "rsq_cell parse_example zero_r2_merged 0 0 = Fin 0"
    "rsq_cell parse_example zero_r2_merged 0 (Suc 0) = Fin (4 / 5)"
    by (simp_all add: zero_r2_merged_def parse_example_def)
  have "\<exists>a::real. a \<noteq> 0 \<and> 4 / 5 = a" by (rule exI[of _ "4 / 5"]) simp
  then have st: "{g. g < 2 \<and> (\<exists>a. a \<noteq> 0 \<and> rsq_cell parse_example zero_r2_merged 0 g = Fin a)} = {Suc 0}"
    unfolding less_two using c by auto
  have num: "nansum (map (\<lambda>g. fmul (rsq_cell parse_example zero_r2_merged 0 g)
                               (Fin (real (individuals (input zero_r2_flags ! g))))) [0..<2]) = Fin 40"
    by (simp add: upt_rec c ns nansum_def notna_def)
  have v: "fdiv (nansum (map (\<lambda>g. fmul (rsq_cell parse_example zero_r2_merged 0 g)
                               (Fin (real (individuals (input zero_r2_flags ! g))))) [0..<2]))
        (Fin (\<Sum>g\<in>{g. g < 2 \<and> (\<exists>a. a \<noteq> 0 \<and> rsq_cell parse_example zero_r2_merged 0 g = Fin a)}.
                 real (individuals (input zero_r2_flags ! g)))) = Fin (4 / 5)"
    unfolding num st by (simp add: ns)
  from weighted_mode_r2_denominator[OF w n i, of parse_example "[0, 1]"] show ?thesis
    unfolding l v .
qed

lemma zero_r2_merge:
  "merge_snps (get_lst_info_df zero_r2_flags) =
     Inr (DataFrame [\<lparr>key = variant ''A'', groups = [Cells (Some 0) (Some ''0.5'') (Some ''0.5'') (Some ''0''),
                                      Cells (Some 0) (Some ''0.5'') (Some ''0.5'') (Some ''0.8'')]\<rparr>], [0, 1])"
  by (simp add: merge_snps_def get_lst_info_df_def zero_r2_flags_def outer_merge_def
      join_group_def first_seen_def as_frame_def reset_index_def row_of_def variant_def upt_rec)

text \<open>
  Claim C2 at two cohorts of 100 and 50 individuals and a variant with Rsq 0 in the
  first and 0.8 in the second: \<open>Rsq_combined\<close> is 0.8, the value of the second cohort
  alone, and not (0 * 100 + 0.8 * 50) / (100 + 50).
\<close>

theorem weighted_r2_zero_rsq:
  "map_sum id (\<lambda>out. map (\<lambda>lr. Rsq_combined (snd lr)) (variants_kept out)) (get_snp_list parse_example zero_r2_flags)
     = Inr [Fin (4 / 5)]
   \<and> Fin (4 / 5) \<noteq> Fin ((0 * 100 + 4 / 5 * 50) / (100 + 50))"
proof -
  have f: "input zero_r2_flags \<noteq> []" "length (input zero_r2_flags) = 2"
    "missing zero_r2_flags = 0" "r2_output zero_r2_flags = ''weighted_average''" "r2_threshold zero_r2_flags = 0"
    "map individuals (input zero_r2_flags) = [100, 50]"
    by (simp_all add: zero_r2_flags_def)
  have n: "map (to_numeric_row parse_example 2)
      [\<lparr>key = variant ''A'', groups = [Cells (Some 0) (Some ''0.5'') (Some ''0.5'') (Some ''0''),
                                      Cells (Some 0) (Some ''0.5'') (Some ''0.5'') (Some ''0.8'')]\<rparr>]
      = [\<lparr>key = variant ''A'', groups = [Cells (Some 0) (Fin (1 / 2)) (Fin (1 / 2)) (Fin 0),
                                      Cells (Some 0) (Fin (1 / 2)) (Fin (1 / 2)) (Fin (4 / 5))]\<rparr>]"
    by (simp add: to_numeric_row_def parse_example_def to_numeric_def upt_rec)
  have w: "weighted_r2 [100, 50] \<lparr>key = variant ''A'', groups = [Cells (Some 0) (Fin (1 / 2)) (Fin (1 / 2)) (Fin 0),
                                      Cells (Some 0) (Fin (1 / 2)) (Fin (1 / 2)) (Fin (4 / 5))]\<rparr> = Fin (4 / 5)"
    by (simp add: weighted_r2_def adj_col_def weight_adj_col_def nansum_def notna_def upt_rec)
  have g: "get_snp_list parse_example zero_r2_flags
      = process_output parse_example [\<lparr>key = variant ''A'', groups = [Cells (Some 0) (Some ''0.5'') (Some ''0.5'') (Some ''0''),
                                      Cells (Some 0) (Some ''0.5'') (Some ''0.5'') (Some ''0.8'')]\<rparr>] zero_r2_flags [0, 1]"
    by (simp add: get_snp_list_def zero_r2_merge)
  have "map_sum id (\<lambda>out. map (\<lambda>lr. Rsq_combined (snd lr)) (variants_kept out)) (get_snp_list parse_example zero_r2_flags)
     = Inr [Fin (4 / 5)]"
    unfolding g process_output_def Let_def f n
    by (simp add: combined_cols_def calculate_weighted_r2_maf_altFrq_def Let_def f w assemble_def rsq_values_def
        row_masks_def mask_first_def mask_step_def notna_def isna_def select_def drop_columns_def)
  then show ?thesis by simp
qed

end
